theory Spec2Isabelle
  imports Main "HOL-Library.AList" "HOL-Library.Sublist" "HOL-Library.Word"
begin

section \<open>State cache storage: a shallow embedding of state-cache-storage.ts\<close>

text \<open>
  The module keeps one string (the serialized state) in a remote cache between runs.
  Everything it does is a sequence of calls into its surroundings: Node's \<open>fs\<close>,
  \<open>path\<close> and \<open>os\<close> modules, the Octokit REST client and the \<open>@actions/cache\<close>
  library. The embedding makes these surroundings explicit:
  \<^item> a \<open>world\<close> holds the files on disk, the entries of the remote cache and the
    lines written to the log;
  \<^item> a \<open>host\<close> holds what the platform fixes (the temp root and the two path
    functions), taken as parameters;
  \<^item> a \<open>faults\<close> record says, for one call of \<open>save\<close> or \<open>restore\<close>, which of the
    external operations throw and what they throw;
  \<^item> an action is a function from a world to a result and a world, the result being
    \<open>Inl\<close> of the thrown error or \<open>Inr\<close> of the returned value.
\<close>

subsection \<open>Errors, log lines, the world\<close>

text \<open>
  A thrown JavaScript error object, as far as the module looks at it: \<open>error.status\<close>
  and \<open>error.message\<close>, each possibly undefined.
\<close>

record js_error =
  status :: "nat option"
  message :: "string option"

datatype log_line = Debug string | Info string | Warning string

text \<open>
  \<open>files\<close>: the regular files on disk, path and content; the first pair for a path is
  the file, and the content is its bytes. \<open>caches\<close>: the entries of the remote cache,
  newest first, each a key and the archived files.
\<close>

record world =
  files :: "(string \<times> string) list"
  caches :: "(string \<times> (string \<times> string) list) list"
  logs :: "log_line list"

text \<open>
  What the platform fixes: \<open>os.tmpdir()\<close>, \<open>path.join\<close> (used with two arguments) and
  \<open>path.dirname\<close>. They are parameters: nothing below depends on what they compute.
\<close>

record host =
  tmpdir :: string
  path_join :: "string \<Rightarrow> string \<Rightarrow> string"
  path_dirname :: "string \<Rightarrow> string"

text \<open>
  The failures of one call of \<open>save\<close> or \<open>restore\<close>: for each external operation,
  \<open>None\<close> when it works and \<open>Some\<close> of the error when it throws. Each operation runs
  at most once in a call, but for the making of the client, which \<open>save\<close> does twice (in
  \<open>checkIfCacheExists\<close> and in \<open>resetCacheWithOctokit\<close>): one entry decides both.
\<close>

record faults =
  mkdir_fault :: "js_error option"
  write_fault :: "js_error option"
  stat_fault :: "js_error option"
  unlink_fault :: "js_error option"
  read_fault :: "js_error option"
  client_fault :: "js_error option"
  list_fault :: "js_error option"
  delete_fault :: "js_error option"
  upload_fault :: "js_error option"
  download_fault :: "js_error option"

definition no_faults :: faults where
  "no_faults = \<lparr>mkdir_fault = None, write_fault = None, stat_fault = None,
     unlink_fault = None, read_fault = None, client_fault = None, list_fault = None,
     delete_fault = None, upload_fault = None, download_fault = None\<rparr>"

subsection \<open>Actions: return, throw, sequencing, try/catch, try/finally\<close>

type_synonym 'a io = "world \<Rightarrow> (js_error + 'a) \<times> world"

definition return_io :: "'a \<Rightarrow> 'a io" where
  "return_io x = (\<lambda>w. (Inr x, w))"

definition throw_io :: "js_error \<Rightarrow> 'a io" where
  "throw_io e = (\<lambda>w. (Inl e, w))"

definition bind_io :: "'a io \<Rightarrow> ('a \<Rightarrow> 'b io) \<Rightarrow> 'b io" where
  "bind_io m k = (\<lambda>w. case m w of (Inl e, w') \<Rightarrow> (Inl e, w') | (Inr x, w') \<Rightarrow> k x w')"

definition try_catch :: "'a io \<Rightarrow> (js_error \<Rightarrow> 'a io) \<Rightarrow> 'a io" where
  "try_catch m handler = (\<lambda>w. case m w of (Inl e, w') \<Rightarrow> handler e w' | (Inr x, w') \<Rightarrow> (Inr x, w'))"

text \<open>
  \<open>try { m } finally { fin }\<close>: \<open>fin\<close> runs on every exit of \<open>m\<close>; the outcome is the
  one of \<open>m\<close> unless \<open>fin\<close> itself throws.
\<close>

definition try_finally :: "'a io \<Rightarrow> unit io \<Rightarrow> 'a io" where
  "try_finally m fin = (\<lambda>w. case m w of (r, w') \<Rightarrow>
     (case fin w' of (Inl e, w'') \<Rightarrow> (Inl e, w'') | (Inr _, w'') \<Rightarrow> (r, w'')))"

subsection \<open>Template literals and truthiness\<close>

function show_nat :: "nat \<Rightarrow> string" where
  "show_nat n = (if n < 10 then [''0123456789'' ! n]
     else show_nat (n div 10) @ [''0123456789'' ! (n mod 10)])"
  by pat_completeness auto
termination
  by (relation "measure id") auto

declare show_nat.simps [simp del]

definition dq :: string where
  "dq = [CHR 0x22]"

definition sq :: string where
  "sq = [CHR 0x27]"

text \<open>\<open>`${v}`\<close> for a string that may be undefined.\<close>

definition template :: "string option \<Rightarrow> string" where
  "template v = (case v of None \<Rightarrow> ''undefined'' | Some s \<Rightarrow> s)"

text \<open>\<open>v || d\<close> for a string that may be undefined: the empty string is falsy.\<close>

definition or_else :: "string option \<Rightarrow> string \<Rightarrow> string" where
  "or_else v d = (case v of None \<Rightarrow> d | Some s \<Rightarrow> if s = [] then d else s)"

text \<open>\<open>if (error.status)\<close>: undefined and 0 are falsy.\<close>

definition truthy_status :: "js_error \<Rightarrow> bool" where
  "truthy_status e = (case status e of None \<Rightarrow> False | Some n \<Rightarrow> n \<noteq> 0)"

subsection \<open>JavaScript strings and UTF-8\<close>

text \<open>
  The state is a JavaScript string: a list of 16-bit code units (UTF-16). On disk it is
  bytes: \<open>fs.writeFileSync(path, string)\<close> writes the string encoded as UTF-8, and
  \<open>fs.readFileSync(path, {encoding: 'utf8'})\<close> decodes the bytes of the file. The names
  the module builds (prefix, cache key, paths) and the text it logs are only
  concatenated and compared, and stay lists of characters.
\<close>

type_synonym js_string = "16 word list"

text \<open>
  The encoder, on the values of the code units. A high surrogate followed by a low one is
  one code point of four bytes; a surrogate on its own is written as U+FFFD (the bytes
  EF BF BD).
\<close>

fun encode_units :: "nat list \<Rightarrow> nat list" where
  "encode_units [] = []"
| "encode_units (u # us) =
    (if u < 128 then u # encode_units us
     else if u < 2048 then (192 + u div 64) # (128 + u mod 64) # encode_units us
     else if 55296 \<le> u \<and> u \<le> 56319 then
       (case us of
          [] \<Rightarrow> [239, 191, 189]
        | v # vs \<Rightarrow>
            if 56320 \<le> v \<and> v \<le> 57343
            then (let c = 65536 + (u - 55296) * 1024 + (v - 56320) in
                  (240 + c div 262144) # (128 + c div 4096 mod 64) # (128 + c div 64 mod 64)
                    # (128 + c mod 64) # encode_units vs)
            else 239 # 191 # 189 # encode_units us)
     else if 56320 \<le> u \<and> u \<le> 57343 then 239 # 191 # 189 # encode_units us
     else (224 + u div 4096) # (128 + u div 64 mod 64) # (128 + u mod 64) # encode_units us)"

text \<open>
  The decoder, on the values of the bytes, giving code units; it is the decoder of the
  WHATWG Encoding standard, which Node's buffers follow. It accepts the well-formed
  sequences only (no overlong forms, no encoded surrogates, nothing above U+10FFFF); at a
  byte that cannot continue the sequence it gives U+FFFD for what it has read and goes on
  from that byte. A code point above U+FFFF becomes a surrogate pair. A byte order mark is
  kept.
\<close>

fun decode_bytes :: "nat list \<Rightarrow> nat list" where
  "decode_bytes [] = []"
| "decode_bytes (b0 # bs) =
    (if b0 < 128 then b0 # decode_bytes bs
     else if 194 \<le> b0 \<and> b0 \<le> 223 then
       (case bs of
          [] \<Rightarrow> [65533]
        | b1 # bs1 \<Rightarrow>
            if 128 \<le> b1 \<and> b1 \<le> 191
            then ((b0 - 192) * 64 + (b1 - 128)) # decode_bytes bs1
            else 65533 # decode_bytes bs)
     else if 224 \<le> b0 \<and> b0 \<le> 239 then
       (case bs of
          [] \<Rightarrow> [65533]
        | b1 # bs1 \<Rightarrow>
            if (if b0 = 224 then 160 else 128) \<le> b1 \<and> b1 \<le> (if b0 = 237 then 159 else 191)
            then (case bs1 of
                    [] \<Rightarrow> [65533]
                  | b2 # bs2 \<Rightarrow>
                      if 128 \<le> b2 \<and> b2 \<le> 191
                      then ((b0 - 224) * 4096 + (b1 - 128) * 64 + (b2 - 128)) # decode_bytes bs2
                      else 65533 # decode_bytes bs1)
            else 65533 # decode_bytes bs)
     else if 240 \<le> b0 \<and> b0 \<le> 244 then
       (case bs of
          [] \<Rightarrow> [65533]
        | b1 # bs1 \<Rightarrow>
            if (if b0 = 240 then 144 else 128) \<le> b1 \<and> b1 \<le> (if b0 = 244 then 143 else 191)
            then (case bs1 of
                    [] \<Rightarrow> [65533]
                  | b2 # bs2 \<Rightarrow>
                      if 128 \<le> b2 \<and> b2 \<le> 191
                      then (case bs2 of
                              [] \<Rightarrow> [65533]
                            | b3 # bs3 \<Rightarrow>
                                if 128 \<le> b3 \<and> b3 \<le> 191
                                then (let c = (b0 - 240) * 262144 + (b1 - 128) * 4096
                                               + (b2 - 128) * 64 + (b3 - 128) in
                                      (55296 + (c - 65536) div 1024) # (56320 + (c - 65536) mod 1024)
                                        # decode_bytes bs3)
                                else 65533 # decode_bytes bs2)
                      else 65533 # decode_bytes bs1)
            else 65533 # decode_bytes bs)
     else 65533 # decode_bytes bs)"

text \<open>
  A string is well formed when every surrogate is part of a pair. (On numbers the test
  also asks that they are code units, below 65536; for a \<open>js_string\<close> that always holds.)
\<close>

fun well_formed_units :: "nat list \<Rightarrow> bool" where
  "well_formed_units [] = True"
| "well_formed_units (u # us) =
    (if 55296 \<le> u \<and> u \<le> 56319 then
       (case us of [] \<Rightarrow> False | v # vs \<Rightarrow> 56320 \<le> v \<and> v \<le> 57343 \<and> well_formed_units vs)
     else if 56320 \<le> u \<and> u \<le> 57343 then False
     else u < 65536 \<and> well_formed_units us)"

definition utf8_encode :: "js_string \<Rightarrow> string" where
  "utf8_encode s = map char_of (encode_units (map unat s))"

definition utf8_decode :: "string \<Rightarrow> js_string" where
  "utf8_decode bytes = map of_nat (decode_bytes (map of_char bytes))"

definition well_formed :: "js_string \<Rightarrow> bool" where
  "well_formed s = well_formed_units (map unat s)"

declare encode_units.simps(2) [simp del] decode_bytes.simps(2) [simp del]
  well_formed_units.simps(2) [simp del]

subsection \<open>The logging sink (\<open>@actions/core\<close>)\<close>

definition core_debug :: "string \<Rightarrow> unit io" where
  "core_debug msg = (\<lambda>w. (Inr (), w\<lparr>logs := logs w @ [Debug msg]\<rparr>))"

definition core_info :: "string \<Rightarrow> unit io" where
  "core_info msg = (\<lambda>w. (Inr (), w\<lparr>logs := logs w @ [Info msg]\<rparr>))"

definition core_warning :: "string \<Rightarrow> unit io" where
  "core_warning msg = (\<lambda>w. (Inr (), w\<lparr>logs := logs w @ [Warning msg]\<rparr>))"

subsection \<open>The file system (Node's \<open>fs\<close>)\<close>

text \<open>
  Each operation throws what the \<open>faults\<close> record says, leaving the disk as it was;
  otherwise it acts on \<open>files\<close>, and throws \<open>ENOENT\<close> where Node does for a path that
  is not there. \<open>existsSync\<close> never throws.
\<close>

definition ENOENT :: "string \<Rightarrow> string \<Rightarrow> js_error" where
  "ENOENT syscall p = \<lparr>status = None,
     message = Some (''ENOENT: no such file or directory, '' @ syscall @ '' '' @ sq @ p @ sq)\<rparr>"

text \<open>
  Writing a file puts it in front and drops what was stored under the path before, so
  that a path never has a second, hidden content.
\<close>

definition put_file :: "string \<Rightarrow> string \<Rightarrow> (string \<times> string) list \<Rightarrow> (string \<times> string) list" where
  "put_file p data fs = (p, data) # AList.delete p fs"

text \<open>
  Directories are not part of the world: \<open>mkdirSync\<close> with \<open>recursive\<close> throws or
  leaves the files as they are.
\<close>

definition fs_mkdirSync :: "faults \<Rightarrow> string \<Rightarrow> unit io" where
  "fs_mkdirSync f dir = (case mkdir_fault f of Some e \<Rightarrow> throw_io e | None \<Rightarrow> return_io ())"

text \<open>\<open>fs.writeFileSync(p, data)\<close> with a string: the file holds its UTF-8 encoding.\<close>

definition fs_writeFileSync :: "faults \<Rightarrow> string \<Rightarrow> js_string \<Rightarrow> unit io" where
  "fs_writeFileSync f p data = (case write_fault f of Some e \<Rightarrow> throw_io e
     | None \<Rightarrow> (\<lambda>w. (Inr (), w\<lparr>files := put_file p (utf8_encode data) (files w)\<rparr>)))"

definition fs_existsSync :: "string \<Rightarrow> world \<Rightarrow> bool" where
  "fs_existsSync p w = (map_of (files w) p \<noteq> None)"

definition fs_unlinkSync :: "faults \<Rightarrow> string \<Rightarrow> unit io" where
  "fs_unlinkSync f p = (case unlink_fault f of Some e \<Rightarrow> throw_io e
     | None \<Rightarrow> (\<lambda>w. if fs_existsSync p w
         then (Inr (), w\<lparr>files := AList.delete p (files w)\<rparr>)
         else (Inl (ENOENT ''unlink'' p), w)))"

text \<open>\<open>fs.statSync(p).size\<close>: the number of bytes.\<close>

definition fs_statSync_size :: "faults \<Rightarrow> string \<Rightarrow> nat io" where
  "fs_statSync_size f p = (case stat_fault f of Some e \<Rightarrow> throw_io e
     | None \<Rightarrow> (\<lambda>w. case map_of (files w) p of
         None \<Rightarrow> (Inl (ENOENT ''stat'' p), w)
       | Some data \<Rightarrow> (Inr (length data), w)))"

text \<open>\<open>fs.readFileSync(p, {encoding: 'utf8'})\<close>: the bytes of the file, decoded.\<close>

definition fs_readFileSync :: "faults \<Rightarrow> string \<Rightarrow> js_string io" where
  "fs_readFileSync f p = (case read_fault f of Some e \<Rightarrow> throw_io e
     | None \<Rightarrow> (\<lambda>w. case map_of (files w) p of
         None \<Rightarrow> (Inl (ENOENT ''open'' p), w)
       | Some data \<Rightarrow> (Inr (utf8_decode data), w)))"

subsection \<open>The remote cache backend\<close>

text \<open>
  Modelled from the spec: the Octokit client and the \<open>@actions/cache\<close> library are
  not part of the repository. The spec lists the four operations consumed,
  \<open>listEntries(exactKeyOrPrefix) -> entries[]\<close>, \<open>deleteEntry(key) -> void | NotFoundError\<close>,
  \<open>uploadPaths(paths[], key) -> void\<close> and \<open>downloadPaths(paths[], key) -> void\<close>, and
  says that the backend does not itself keep keys unique. Each operation throws what
  the \<open>faults\<close> record says, leaving the backend as it was; otherwise it acts on
  \<open>caches\<close> as below.
\<close>

datatype octokit = Octokit

text \<open>
  Modelled from the spec: the listing is filtered by prefix (the code's comment
  \<open>// prefix matching\<close>). The response is \<open>data['actions_caches']\<close>, a list of entries
  each with an optional \<open>key\<close>, itself possibly undefined.
\<close>

definition getActionsCacheList :: "faults \<Rightarrow> octokit \<Rightarrow> string \<Rightarrow> string option list option io" where
  "getActionsCacheList f client k = (case list_fault f of Some e \<Rightarrow> throw_io e
     | None \<Rightarrow> (\<lambda>w. (Inr (Some (map (\<lambda>c. Some (fst c)) (filter (\<lambda>c. prefix k (fst c)) (caches w)))), w)))"

definition not_found :: js_error where
  "not_found = \<lparr>status = Some 404, message = Some ''Not Found''\<rparr>"

text \<open>
  Modelled from the spec: deleting by key removes every entry stored under exactly
  that key, and throws the not-found error when there is none.
\<close>

definition deleteActionsCacheByKey :: "faults \<Rightarrow> octokit \<Rightarrow> string \<Rightarrow> unit io" where
  "deleteActionsCacheByKey f client k = (case delete_fault f of Some e \<Rightarrow> throw_io e
     | None \<Rightarrow> (\<lambda>w. if list_ex (\<lambda>c. fst c = k) (caches w)
         then (Inr (), w\<lparr>caches := filter (\<lambda>c. fst c \<noteq> k) (caches w)\<rparr>)
         else (Inl not_found, w)))"

text \<open>
  Modelled from the spec: uploading archives the files directly inside the given
  directories and stores the archive as a new entry under the key.
\<close>

definition cache_saveCache :: "host \<Rightarrow> faults \<Rightarrow> string list \<Rightarrow> string \<Rightarrow> unit io" where
  "cache_saveCache h f paths k = (case upload_fault f of Some e \<Rightarrow> throw_io e
     | None \<Rightarrow> (\<lambda>w. (Inr (),
         w\<lparr>caches := (k, filter (\<lambda>file. path_dirname h (fst file) \<in> set paths) (files w)) # caches w\<rparr>)))"

text \<open>
  Modelled from the spec: downloading unpacks the newest entry stored under exactly
  the key over the disk and returns the key; with no such entry it does nothing and
  returns undefined.
\<close>

definition cache_restoreCache :: "host \<Rightarrow> faults \<Rightarrow> string list \<Rightarrow> string \<Rightarrow> string option io" where
  "cache_restoreCache h f paths k = (case download_fault f of Some e \<Rightarrow> throw_io e
     | None \<Rightarrow> (\<lambda>w. case find (\<lambda>c. fst c = k) (caches w) of
         None \<Rightarrow> (Inr None, w)
       | Some c \<Rightarrow> (Inr (Some k),
           w\<lparr>files := fold (\<lambda>file. put_file (fst file) (snd file)) (snd c) (files w)\<rparr>)))"

subsection \<open>The module\<close>

definition CACHE_KEY :: string where
  "CACHE_KEY = ''_state''"

definition STATE_FILE :: string where
  "STATE_FILE = ''state.txt''"

definition STALE_DIR :: string where
  "STALE_DIR = ''56acbeaa-1fef-4c79-8f84-7565e560fb03''"

definition mkTempDir :: "host \<Rightarrow> faults \<Rightarrow> string io" where
  "mkTempDir h f =
    (let tmpDir = path_join h (tmpdir h) STALE_DIR in
     bind_io (fs_mkdirSync f tmpDir) (\<lambda>_. return_io tmpDir))"

definition unlinkSafely :: "faults \<Rightarrow> string \<Rightarrow> unit io" where
  "unlinkSafely f filePath = try_catch (fs_unlinkSync f filePath) (\<lambda>foo. return_io ())"

definition getOctokitClient :: "faults \<Rightarrow> octokit io" where
  "getOctokitClient f = (case client_fault f of Some e \<Rightarrow> throw_io e | None \<Rightarrow> return_io Octokit)"

text \<open>
  The \<open>try\<close> block either returns (\<open>Some\<close> of the answer) or its error is caught and
  control falls through to \<open>return false\<close> (\<open>None\<close>). The client is made before the
  \<open>try\<close>.
\<close>

definition checkIfCacheExists :: "faults \<Rightarrow> string \<Rightarrow> bool io" where
  "checkIfCacheExists f cacheKey =
    bind_io (getOctokitClient f) (\<lambda>client.
    bind_io
      (try_catch
        (bind_io (getActionsCacheList f client cacheKey) (\<lambda>cachesResult.
          let caches = (case cachesResult of None \<Rightarrow> [] | Some cs \<Rightarrow> cs) in
          return_io (Some (list_ex (\<lambda>cache. cache = Some cacheKey) caches))))
        (\<lambda>error.
          bind_io (core_debug (''Error checking if cache exist: '' @ template (message error)))
            (\<lambda>_. return_io None)))
      (\<lambda>returned. case returned of Some b \<Rightarrow> return_io b | None \<Rightarrow> return_io False))"

definition resetCacheWithOctokit :: "faults \<Rightarrow> string \<Rightarrow> unit io" where
  "resetCacheWithOctokit f cacheKey =
    bind_io (getOctokitClient f) (\<lambda>client.
    bind_io (core_debug (''remove cache '' @ dq @ cacheKey @ dq)) (\<lambda>_.
    try_catch (deleteActionsCacheByKey f client cacheKey)
      (\<lambda>error.
        if truthy_status error
        then core_warning (''Error delete '' @ cacheKey @ '': ['' @ show_nat (the (status error))
               @ ''] '' @ or_else (message error) ''Unknown reason'')
        else throw_io error)))"

text \<open>The class has one field; of the options the constructor reads \<open>cachePrefix\<close> only.\<close>

record StateCacheStorage =
  statePrefix :: string

record IIssuesProcessorOptions =
  cachePrefix :: string

definition constructor :: "IIssuesProcessorOptions \<Rightarrow> StateCacheStorage" where
  "constructor options = \<lparr>statePrefix = cachePrefix options\<rparr>"

text \<open>The two names both methods compute: the path of the scratch file and the cache key.\<close>

definition filePath_of :: "host \<Rightarrow> StateCacheStorage \<Rightarrow> string" where
  "filePath_of h this =
     path_join h (path_join h (tmpdir h) STALE_DIR) (statePrefix this @ ''_'' @ STATE_FILE)"

definition cache_key_of :: "StateCacheStorage \<Rightarrow> string" where
  "cache_key_of this = statePrefix this @ CACHE_KEY"

text \<open>
  \<open>save\<close>, lines 81 to 110. The \<open>try\<close> block (lines 88 to 100) and the \<open>catch\<close> block
  (lines 102 to 106) are definitions of their own; \<open>save\<close> puts them together with the
  \<open>finally\<close> block. The directory is made and the file written before the \<open>try\<close>.
\<close>

definition save_try :: "host \<Rightarrow> faults \<Rightarrow> StateCacheStorage \<Rightarrow> string \<Rightarrow> unit io" where
  "save_try h f this filePath =
    (let cache_key = statePrefix this @ CACHE_KEY in
     bind_io (checkIfCacheExists f cache_key) (\<lambda>cacheExists.
     bind_io (if cacheExists then resetCacheWithOctokit f cache_key else return_io ()) (\<lambda>_.
     bind_io (fs_statSync_size f filePath) (\<lambda>fileSize.
     if fileSize = 0
     then core_info ''the state will be removed''
     else cache_saveCache h f [path_dirname h filePath] cache_key))))"

definition save_catch :: "js_error \<Rightarrow> unit io" where
  "save_catch error =
    core_warning (''Saving the state was not successful due to '' @ dq
      @ or_else (message error) ''unknown reason'' @ dq)"

definition save :: "host \<Rightarrow> faults \<Rightarrow> StateCacheStorage \<Rightarrow> js_string \<Rightarrow> unit io" where
  "save h f this serializedState =
    bind_io (mkTempDir h f) (\<lambda>tmpDir.
    let state_file = statePrefix this @ ''_'' @ STATE_FILE;
        filePath = path_join h tmpDir state_file in
    bind_io (fs_writeFileSync f filePath serializedState) (\<lambda>_.
    try_finally
      (try_catch (save_try h f this filePath) save_catch)
      (unlinkSafely f filePath)))"

text \<open>
  \<open>restore\<close>, lines 112 to 146, with its \<open>try\<close> block (lines 118 to 137) and its
  \<open>catch\<close> block (lines 139 to 144). There is no \<open>finally\<close> block.
\<close>

definition restore_try :: "host \<Rightarrow> faults \<Rightarrow> StateCacheStorage \<Rightarrow> string \<Rightarrow> string \<Rightarrow> string \<Rightarrow> js_string io" where
  "restore_try h f this tmpDir state_file filePath =
    (let cache_key = statePrefix this @ CACHE_KEY in
     bind_io (checkIfCacheExists f cache_key) (\<lambda>cacheExists.
     if \<not> cacheExists
     then bind_io (core_info ''The saved state was not found, the process starts from the first issue.'')
            (\<lambda>_. return_io [])
     else
       bind_io (cache_restoreCache h f [path_dirname h filePath] cache_key) (\<lambda>_.
       (\<lambda>w. if \<not> fs_existsSync filePath w
         then bind_io (core_warning ''Unknown error when unpacking the cache, the process starts from the first issue.'')
                (\<lambda>_. return_io []) w
         else fs_readFileSync f (path_join h tmpDir state_file) w))))"

definition restore_catch :: "js_error \<Rightarrow> js_string io" where
  "restore_catch error =
    bind_io (core_warning (''Restoring the state was not successful due to '' @ dq
        @ or_else (message error) ''unknown reason'' @ dq))
      (\<lambda>_. return_io [])"

definition restore :: "host \<Rightarrow> faults \<Rightarrow> StateCacheStorage \<Rightarrow> js_string io" where
  "restore h f this =
    bind_io (mkTempDir h f) (\<lambda>tmpDir.
    let state_file = statePrefix this @ ''_'' @ STATE_FILE;
        filePath = path_join h tmpDir state_file in
    bind_io (unlinkSafely f filePath) (\<lambda>_.
    try_catch (restore_try h f this tmpDir state_file filePath) restore_catch))"

subsection \<open>Concrete inputs for the examples\<close>

text \<open>
  A POSIX host for names without separators: \<open>path.join\<close> puts a slash between its
  arguments and \<open>path.dirname\<close> drops the last segment.
\<close>

definition posix_host :: host where
  "posix_host = \<lparr>tmpdir = ''/tmp'', path_join = (\<lambda>a b. a @ ''/'' @ b),
     path_dirname = (\<lambda>p. rev (tl (dropWhile (\<lambda>c. c \<noteq> CHR ''/'') (rev p))))\<rparr>"

definition foo :: StateCacheStorage where
  "foo = constructor \<lparr>cachePrefix = ''foo''\<rparr>"

definition empty_world :: world where
  "empty_world = \<lparr>files = [], caches = [], logs = []\<rparr>"

text \<open>
  The states \<open>42\<close> and \<open>43\<close> as code units, and a string that is one high surrogate
  (the code unit D83D).
\<close>

definition state_42 :: js_string where
  "state_42 = [0x34, 0x32]"

definition state_43 :: js_string where
  "state_43 = [0x34, 0x33]"

definition lone_surrogate :: js_string where
  "lone_surrogate = [0xD83D]"

text \<open>A well-formed string with a surrogate pair and a three-byte character (U+1F600, U+20AC).\<close>

definition face_and_euro :: js_string where
  "face_and_euro = [0xD83D, 0xDE00, 0x20AC]"

text \<open>A world in which the state \<open>42\<close> has been saved under the prefix \<open>foo\<close>.\<close>

definition world_with_42 :: world where
  "world_with_42 = \<lparr>files = [],
     caches = [(''foo_state'', [(''/tmp/56acbeaa-1fef-4c79-8f84-7565e560fb03/foo_state.txt'', ''42'')])],
     logs = []\<rparr>"

text \<open>
  A world whose entries have keys that only start with \<open>foo_state\<close>, and one whose
  entry under \<open>foo_state\<close> holds no file.
\<close>

definition world_with_longer_keys :: world where
  "world_with_longer_keys = \<lparr>files = [],
     caches = [(''foo_state_old'', []), (''bar_state'', []), (''foo_state2'', [])], logs = []\<rparr>"

definition world_with_empty_entry :: world where
  "world_with_empty_entry = \<lparr>files = [], caches = [(''foo_state'', [])], logs = []\<rparr>"

text \<open>Errors: a transport error without status, a backend error with one, two file-system errors.\<close>

definition socket_hang_up :: js_error where
  "socket_hang_up = \<lparr>status = None, message = Some ''socket hang up''\<rparr>"

definition server_error :: js_error where
  "server_error = \<lparr>status = Some 500, message = Some ''Internal Server Error''\<rparr>"

definition read_error :: js_error where
  "read_error = \<lparr>status = None, message = Some ''EIO: i/o error, read''\<rparr>"

definition permission_denied :: js_error where
  "permission_denied = \<lparr>status = None, message = Some ''EACCES: permission denied, mkdir''\<rparr>"

section \<open>Properties\<close>

subsection \<open>UTF-8: decoding what was encoded\<close>

lemma combine64: "u = q * 64 + r \<Longrightarrow> q = d * 64 + m \<Longrightarrow> u = d * 4096 + m * 64 + (r::nat)"
  by simp

lemma digits64:
  fixes u :: nat
  shows "u = u div 64 div 64 * 4096 + u div 64 mod 64 * 64 + u mod 64"
    and "u div 4096 = u div 64 div 64"
proof -
  have a: "u = u div 64 * 64 + u mod 64" by simp
  have b: "u div 64 = u div 64 div 64 * 64 + u div 64 mod 64" by simp
  show "u = u div 64 div 64 * 4096 + u div 64 mod 64 * 64 + u mod 64"
    by (rule combine64 [OF a b])
  show "u div 4096 = u div 64 div 64"
    using div_mult2_eq [of u 64 64] by simp
qed

lemma decode_1: "b0 < 128 \<Longrightarrow> decode_bytes (b0 # bs) = b0 # decode_bytes bs"
  by (simp add: decode_bytes.simps(2))

lemma decode_2:
  "2 \<le> d \<Longrightarrow> d \<le> 31 \<Longrightarrow> r < 64 \<Longrightarrow>
   decode_bytes ((192 + d) # (128 + r) # bs) = (d * 64 + r) # decode_bytes bs"
  by (simp add: decode_bytes.simps(2))

lemma decode_3:
  "d \<le> 15 \<Longrightarrow> m < 64 \<Longrightarrow> r < 64 \<Longrightarrow> (d = 0 \<longrightarrow> 32 \<le> m) \<Longrightarrow> (d = 13 \<longrightarrow> m < 32) \<Longrightarrow>
   decode_bytes ((224 + d) # (128 + m) # (128 + r) # bs) = (d * 4096 + m * 64 + r) # decode_bytes bs"
  by (auto simp: decode_bytes.simps(2))

lemma decode_4:
  "a \<le> 4 \<Longrightarrow> b < 64 \<Longrightarrow> m < 64 \<Longrightarrow> r < 64 \<Longrightarrow> (a = 0 \<longrightarrow> 16 \<le> b) \<Longrightarrow> (a = 4 \<longrightarrow> b < 16) \<Longrightarrow>
   decode_bytes ((240 + a) # (128 + b) # (128 + m) # (128 + r) # bs) =
     (55296 + (a * 262144 + b * 4096 + m * 64 + r - 65536) div 1024)
       # (56320 + (a * 262144 + b * 4096 + m * 64 + r - 65536) mod 1024) # decode_bytes bs"
  by (auto simp: decode_bytes.simps(2) Let_def)

lemma surrogate_pair:
  "h < 1024 \<Longrightarrow> l < 1024 \<Longrightarrow>
   (65536 + h * 1024 + l - 65536) div 1024 = h \<and> (65536 + h * 1024 + l - 65536) mod 1024 = (l::nat)"
  by simp

lemma decode_encode_units: "well_formed_units us \<Longrightarrow> decode_bytes (encode_units us) = us"
proof (induction us rule: well_formed_units.induct)
  case 1
  then show ?case by simp
next
  case (2 u us)
  consider (ascii) "u < 128" | (two) "128 \<le> u" "u < 2048"
    | (high) "55296 \<le> u" "u \<le> 56319" | (low) "56320 \<le> u" "u \<le> 57343"
    | (three) "2048 \<le> u" "u < 55296 \<or> 57343 < u"
    by linarith
  then show ?case
  proof cases
    case ascii
    with 2 show ?thesis
      by (simp add: encode_units.simps(2) well_formed_units.simps(2) decode_1)
  next
    case two
    define d r where "d = u div 64" and "r = u mod 64"
    have u: "u = d * 64 + r" and r: "r < 64" by (simp_all add: d_def r_def)
    have d: "2 \<le> d" "d \<le> 31" using two u r by linarith+
    have e: "encode_units (u # us) = (192 + d) # (128 + r) # encode_units us"
      using two by (simp add: encode_units.simps(2) d_def r_def)
    have ih: "decode_bytes (encode_units us) = us"
      using 2(2,3) two by (simp add: well_formed_units.simps(2))
    show ?thesis
      by (simp only: e decode_2 [OF d r] ih u [symmetric])
  next
    case low
    with 2 show ?thesis by (simp add: well_formed_units.simps(2))
  next
    case three
    from 2(3) three have lt: "u < 65536" and wf: "well_formed_units us"
      by (auto simp: well_formed_units.simps(2) split: if_splits)
    define d m r where "d = u div 64 div 64" and "m = u div 64 mod 64" and "r = u mod 64"
    have u: "u = d * 4096 + m * 64 + r"
      unfolding d_def m_def r_def by (rule digits64(1))
    have m: "m < 64" and r: "r < 64" by (simp_all add: m_def r_def)
    have d: "d \<le> 15" using lt u by linarith
    have d0: "d = 0 \<longrightarrow> 32 \<le> m" using three(1) u r by linarith
    have d13: "d = 13 \<longrightarrow> m < 32" using three(2) u m r by linarith
    have e: "encode_units (u # us) = (224 + d) # (128 + m) # (128 + r) # encode_units us"
      using three by (auto simp: encode_units.simps(2) digits64(2) d_def m_def r_def)
    have ih: "decode_bytes (encode_units us) = us"
      using 2(2) three wf by auto
    show ?thesis
      by (simp only: e decode_3 [OF d m r d0 d13] ih u [symmetric])
  next
    case high
    from 2(3) high obtain v vs where us: "us = v # vs" and v: "56320 \<le> v" "v \<le> 57343"
      and wf: "well_formed_units vs"
      by (auto simp: well_formed_units.simps(2) split: list.splits)
    define h l where "h = u - 55296" and "l = v - 56320"
    have h: "h < 1024" "u = 55296 + h" and l: "l < 1024" "v = 56320 + l"
      using high v by (simp_all add: h_def l_def)
    define c where "c = 65536 + h * 1024 + l"
    define a b m r where "a = c div 4096 div 64" and "b = c div 4096 mod 64"
      and "m = c div 64 mod 64" and "r = c mod 64"
    have c3: "c = c div 4096 * 4096 + m * 64 + r"
      using digits64 [of c] by (simp add: m_def r_def)
    have c4: "c div 4096 = a * 64 + b" by (simp add: a_def b_def)
    have c: "c = a * 262144 + b * 4096 + m * 64 + r"
      using c3 c4 by simp
    have a262: "c div 262144 = a"
      using div_mult2_eq [of c 4096 64] by (simp add: a_def)
    have b: "b < 64" and m: "m < 64" and r: "r < 64" by (simp_all add: b_def m_def r_def)
    have cb: "65536 \<le> c" "c < 1114112" using h(1) l(1) by (simp_all add: c_def)
    have a: "a \<le> 4" using cb c by linarith
    have a0: "a = 0 \<longrightarrow> 16 \<le> b" using cb c m r by linarith
    have a4: "a = 4 \<longrightarrow> b < 16" using cb c by linarith
    have e: "encode_units (u # v # vs) =
      (240 + a) # (128 + b) # (128 + m) # (128 + r) # encode_units vs"
      using high v
      by (simp add: encode_units.simps(2) Let_def c_def [symmetric] h_def [symmetric]
          l_def [symmetric] a262 b_def [symmetric] m_def [symmetric] r_def [symmetric])
    have ih: "decode_bytes (encode_units vs) = vs"
      using 2(1) high us v wf by auto
    have s: "55296 + (c - 65536) div 1024 = u" "56320 + (c - 65536) mod 1024 = v"
      using surrogate_pair [OF h(1) l(1)] h(2) l(2) by (simp_all add: c_def)
    show ?thesis
      unfolding us by (simp only: e decode_4 [OF a b m r a0 a4] c [symmetric] s ih)
  qed
qed

lemma encode_units_bytes:
  "\<forall>u \<in> set us. u < 65536 \<Longrightarrow> \<forall>b \<in> set (encode_units us). b < 256"
proof (induction us rule: encode_units.induct)
  case 1
  then show ?case by simp
next
  case (2 u us)
  from "2.prems" have lt: "u < 65536" and rest: "\<forall>u \<in> set us. u < 65536" by simp_all
  have m: "128 + x mod 64 < 256" for x :: nat
    using mod_less_divisor [of 64 x] by linarith
  consider (ascii) "u < 128" | (two) "128 \<le> u" "u < 2048"
    | (high) "55296 \<le> u" "u \<le> 56319" | (low) "56320 \<le> u" "u \<le> 57343"
    | (three) "2048 \<le> u" "u < 55296 \<or> 57343 < u"
    by linarith
  then show ?case
  proof cases
    case ascii
    with 2(1) rest show ?thesis by (simp add: encode_units.simps(2))
  next
    case two
    have "u div 64 < 32" using two by (simp add: less_mult_imp_div_less)
    with two 2(2) rest m show ?thesis by (simp add: encode_units.simps(2))
  next
    case high
    show ?thesis
    proof (cases us)
      case Nil
      with high show ?thesis by (simp add: encode_units.simps(2))
    next
      case (Cons v vs)
      show ?thesis
      proof (cases "56320 \<le> v \<and> v \<le> 57343")
        case True
        define c where "c = 65536 + (u - 55296) * 1024 + (v - 56320)"
        have "c < 1114112" unfolding c_def using high True by linarith
        then have "c div 262144 < 5" by (simp add: less_mult_imp_div_less)
        moreover have "\<forall>b \<in> set (encode_units vs). b < 256"
          using 2(3) [OF _ _ _ Cons True] high rest Cons by simp
        ultimately show ?thesis
          using high True Cons m by (simp add: encode_units.simps(2) Let_def c_def [symmetric])
      next
        case False
        have ih: "\<forall>b \<in> set (encode_units us). b < 256"
          using 2(4) [OF _ _ _ Cons False] high rest by simp
        have e: "encode_units (u # us) = 239 # 191 # 189 # encode_units us"
          unfolding encode_units.simps(2) [of u us] using high False Cons by auto
        show ?thesis
          using ih by (simp add: e)
      qed
    qed
  next
    case low
    then show ?thesis
      using 2(5) rest by (auto simp: encode_units.simps(2))
  next
    case three
    have "u div 4096 < 16" using lt by (simp add: less_mult_imp_div_less)
    with three 2(6) rest m show ?thesis by (auto simp: encode_units.simps(2))
  qed
qed

lemma encode_units_Nil: "encode_units us = [] \<longleftrightarrow> us = []"
  by (cases us) (auto simp: encode_units.simps(2) Let_def split: list.splits)

lemma utf8_encode_Nil: "utf8_encode x = [] \<longleftrightarrow> x = []"
  by (simp add: utf8_encode_def encode_units_Nil)

lemma utf8_decode_encode: "well_formed x \<Longrightarrow> utf8_decode (utf8_encode x) = x"
proof -
  assume wf: "well_formed x"
  have "\<forall>b \<in> set (encode_units (map unat x)). b < 256"
    by (rule encode_units_bytes) (simp add: unsigned_less [where 'b = 16, simplified])
  then have "map of_char (map char_of (encode_units (map unat x)) :: string) = encode_units (map unat x)"
    by (simp add: map_idI)
  then have "utf8_decode (utf8_encode x) = map of_nat (decode_bytes (encode_units (map unat x)))"
    by (simp add: utf8_decode_def utf8_encode_def)
  also have "\<dots> = map of_nat (map unat x)"
    using wf by (simp add: well_formed_def decode_encode_units)
  also have "\<dots> = x"
    by (simp add: map_idI)
  finally show ?thesis .
qed

text \<open>The concrete strings, evaluated.\<close>

lemmas utf8_eval = utf8_encode_def utf8_decode_def well_formed_def encode_units.simps
  decode_bytes.simps well_formed_units.simps char_of_def bit_0 Let_def

lemma state_42_bytes:
  "utf8_encode state_42 = ''42''" "utf8_decode ''42'' = state_42" "state_42 \<noteq> []"
  "well_formed state_42"
  by (simp_all add: state_42_def utf8_eval)

lemma state_43_bytes: "utf8_encode state_43 = ''43''" "state_43 \<noteq> []"
  by (simp_all add: state_43_def utf8_eval)

lemma lone_surrogate_bytes:
  "utf8_encode lone_surrogate = [CHR 0xEF, CHR 0xBF, CHR 0xBD]"
  "utf8_decode [CHR 0xEF, CHR 0xBF, CHR 0xBD] = [0xFFFD]"
  "lone_surrogate \<noteq> []" "[0xFFFD] \<noteq> lone_surrogate"
  by (simp_all add: lone_surrogate_def utf8_eval)

lemma face_and_euro_bytes:
  "utf8_encode face_and_euro = [CHR 0xF0, CHR 0x9F, CHR 0x98, CHR 0x80, CHR 0xE2, CHR 0x82, CHR 0xAC]"
  "face_and_euro \<noteq> []" "well_formed face_and_euro"
  by (simp_all add: face_and_euro_def utf8_eval)

subsection \<open>The external operations and the helpers\<close>

lemmas io_defs = return_io_def throw_io_def bind_io_def try_catch_def try_finally_def
lemmas log_defs = core_debug_def core_info_def core_warning_def

lemma map_of_put_file: "map_of (put_file p d fs) = (map_of fs)(p \<mapsto> d)"
  by (simp add: put_file_def fun_eq_iff AList.delete_conv)

lemma map_of_unpack:
  "map_of (fold (\<lambda>file. put_file (fst file) (snd file)) xs fs) = map_of fs ++ map_of (rev xs)"
  by (induction xs arbitrary: fs) (simp_all add: map_of_put_file)

lemma list_ex_listing:
  "list_ex (\<lambda>cache. cache = Some k) (map (\<lambda>c. Some (fst c)) (filter (\<lambda>c. prefix k (fst c)) cs))
     = (k \<in> fst ` set cs)"
  by (auto simp: list_ex_iff)

lemma checkIfCacheExists_client_fault:
  "client_fault f = Some e \<Longrightarrow> checkIfCacheExists f k w = (Inl e, w)"
  by (simp add: checkIfCacheExists_def getOctokitClient_def io_defs)

lemma checkIfCacheExists_list_fault:
  "client_fault f = None \<Longrightarrow> list_fault f = Some e \<Longrightarrow>
   checkIfCacheExists f k w =
     (Inr False, w\<lparr>logs := logs w @ [Debug (''Error checking if cache exist: '' @ template (message e))]\<rparr>)"
  by (simp add: checkIfCacheExists_def getOctokitClient_def getActionsCacheList_def io_defs log_defs)

lemma checkIfCacheExists_ok:
  "client_fault f = None \<Longrightarrow> list_fault f = None \<Longrightarrow>
   checkIfCacheExists f k w = (Inr (k \<in> fst ` set (caches w)), w)"
  by (simp add: checkIfCacheExists_def getOctokitClient_def getActionsCacheList_def io_defs list_ex_listing)

lemma unlinkSafely_returns: "fst (unlinkSafely f p w) = Inr ()"
  by (simp add: unlinkSafely_def fs_unlinkSync_def io_defs split: option.splits)

lemma unlinkSafely_ok:
  "unlink_fault f = None \<Longrightarrow> unlinkSafely f p w = (Inr (), w\<lparr>files := AList.delete p (files w)\<rparr>)"
  by (simp add: unlinkSafely_def fs_unlinkSync_def io_defs fs_existsSync_def map_of_eq_None_iff)

lemma unlinkSafely_fault:
  "unlink_fault f = Some e \<Longrightarrow> unlinkSafely f p w = (Inr (), w)"
  by (simp add: unlinkSafely_def fs_unlinkSync_def io_defs)

lemma unlinkSafely_caches: "caches (snd (unlinkSafely f p w)) = caches w"
  by (cases "unlink_fault f") (simp_all add: unlinkSafely_ok unlinkSafely_fault)

lemma unlinkSafely_logs: "logs (snd (unlinkSafely f p w)) = logs w"
  by (cases "unlink_fault f") (simp_all add: unlinkSafely_ok unlinkSafely_fault)

lemma try_catch_save_catch_fst: "fst (try_catch m save_catch w) = Inr ()"
  by (simp add: try_catch_def save_catch_def core_warning_def split: prod.splits sum.splits)

lemma try_finally_unlinkSafely:
  "try_finally m (unlinkSafely f p) w = (fst (m w), snd (unlinkSafely f p (snd (m w))))"
proof -
  obtain r w' where m: "m w = (r, w')" by (cases "m w")
  obtain w'' where u: "unlinkSafely f p w' = (Inr (), w'')"
    using unlinkSafely_returns [of f p w'] by (cases "unlinkSafely f p w'") auto
  show ?thesis by (simp add: try_finally_def m u)
qed

lemma save_mkdir_fault: "mkdir_fault f = Some e \<Longrightarrow> save h f s x w = (Inl e, w)"
  by (simp add: save_def mkTempDir_def fs_mkdirSync_def io_defs)

lemma save_write_fault:
  "mkdir_fault f = None \<Longrightarrow> write_fault f = Some e \<Longrightarrow> save h f s x w = (Inl e, w)"
  by (simp add: save_def mkTempDir_def fs_mkdirSync_def fs_writeFileSync_def io_defs)

lemma save_unfold:
  "mkdir_fault f = None \<Longrightarrow> write_fault f = None \<Longrightarrow>
   save h f s x w =
     (Inr (), snd (unlinkSafely f (filePath_of h s)
        (snd (try_catch (save_try h f s (filePath_of h s)) save_catch
           (w\<lparr>files := put_file (filePath_of h s) (utf8_encode x) (files w)\<rparr>)))))"
  by (simp add: save_def mkTempDir_def fs_mkdirSync_def fs_writeFileSync_def
      return_io_def bind_io_def filePath_of_def Let_def try_finally_unlinkSafely try_catch_save_catch_fst)

lemma try_catch_restore_catch_fst: "\<exists>v. fst (try_catch m restore_catch w) = Inr v"
  by (simp add: try_catch_def restore_catch_def core_warning_def bind_io_def return_io_def
      split: prod.splits sum.splits)

lemma restore_mkdir_fault: "mkdir_fault f = Some e \<Longrightarrow> restore h f s w = (Inl e, w)"
  by (simp add: restore_def mkTempDir_def fs_mkdirSync_def io_defs)

lemma restore_unfold:
  "mkdir_fault f = None \<Longrightarrow>
   restore h f s w =
     try_catch (restore_try h f s (path_join h (tmpdir h) STALE_DIR)
         (statePrefix s @ ''_'' @ STATE_FILE) (filePath_of h s)) restore_catch
       (snd (unlinkSafely f (filePath_of h s) w))"
proof -
  assume a: "mkdir_fault f = None"
  obtain w' where u: "unlinkSafely f (filePath_of h s) w = (Inr (), w')"
    using unlinkSafely_returns [of f "filePath_of h s" w] by (cases "unlinkSafely f (filePath_of h s) w") auto
  show ?thesis using a u
  by (simp add: restore_def mkTempDir_def fs_mkdirSync_def
      return_io_def bind_io_def filePath_of_def Let_def)
qed

subsection \<open>resetCacheWithOctokit\<close>

lemma reset_status:
  "client_fault f = None \<Longrightarrow> delete_fault f = Some e \<Longrightarrow> truthy_status e \<Longrightarrow>
   resetCacheWithOctokit f k w = (Inr (), w\<lparr>logs := logs w @
      [Debug (''remove cache '' @ dq @ k @ dq),
       Warning (''Error delete '' @ k @ '': ['' @ show_nat (the (status e)) @ ''] ''
          @ or_else (message e) ''Unknown reason'')]\<rparr>)"
  by (simp add: resetCacheWithOctokit_def getOctokitClient_def deleteActionsCacheByKey_def io_defs log_defs)

lemma reset_no_status:
  "client_fault f = None \<Longrightarrow> delete_fault f = Some e \<Longrightarrow> \<not> truthy_status e \<Longrightarrow>
   resetCacheWithOctokit f k w =
     (Inl e, w\<lparr>logs := logs w @ [Debug (''remove cache '' @ dq @ k @ dq)]\<rparr>)"
  by (simp add: resetCacheWithOctokit_def getOctokitClient_def deleteActionsCacheByKey_def io_defs log_defs)

lemma reset_ok:
  "client_fault f = None \<Longrightarrow> delete_fault f = None \<Longrightarrow> k \<in> fst ` set (caches w) \<Longrightarrow>
   resetCacheWithOctokit f k w =
     (Inr (), w\<lparr>logs := logs w @ [Debug (''remove cache '' @ dq @ k @ dq)],
                 caches := filter (\<lambda>c. fst c \<noteq> k) (caches w)\<rparr>)"
  by (auto simp add: resetCacheWithOctokit_def getOctokitClient_def deleteActionsCacheByKey_def
      io_defs log_defs list_ex_iff)

lemma filter_absent: "k \<notin> fst ` set cs \<Longrightarrow> filter (\<lambda>c. fst c \<noteq> k) cs = cs"
  by (induction cs) auto


subsection \<open>save_try\<close>

lemma save_try_ok_caches:
  assumes "client_fault f = None" "list_fault f = None" "delete_fault f = None"
    "stat_fault f = None" "upload_fault f = None" "map_of (files w) p = Some x"
  shows "fst (save_try h f s p w) = Inr ()"
    and "caches (snd (save_try h f s p w)) =
      (if x = [] then filter (\<lambda>c. fst c \<noteq> cache_key_of s) (caches w)
       else (cache_key_of s, filter (\<lambda>file. path_dirname h (fst file) \<in> set [path_dirname h p]) (files w))
          # filter (\<lambda>c. fst c \<noteq> cache_key_of s) (caches w))"
    and "files (snd (save_try h f s p w)) = files w"
proof -
  note defs = save_try_def cache_key_of_def Let_def checkIfCacheExists_ok reset_ok bind_io_def return_io_def
        fs_statSync_size_def core_info_def cache_saveCache_def filter_absent
  show "fst (save_try h f s p w) = Inr ()"
    using assms by (cases "cache_key_of s \<in> fst ` set (caches w)") (simp_all add: defs)
  show "caches (snd (save_try h f s p w)) =
      (if x = [] then filter (\<lambda>c. fst c \<noteq> cache_key_of s) (caches w)
       else (cache_key_of s, filter (\<lambda>file. path_dirname h (fst file) \<in> set [path_dirname h p]) (files w))
          # filter (\<lambda>c. fst c \<noteq> cache_key_of s) (caches w))"
    using assms by (cases "cache_key_of s \<in> fst ` set (caches w)") (simp_all add: defs)
  show "files (snd (save_try h f s p w)) = files w"
    using assms by (cases "cache_key_of s \<in> fst ` set (caches w)") (simp_all add: defs)
qed

lemma save_try_list_fault:
  "client_fault f = None \<Longrightarrow> list_fault f = Some e \<Longrightarrow> stat_fault f = None \<Longrightarrow>
   upload_fault f = None \<Longrightarrow> map_of (files w) p = Some x \<Longrightarrow> x \<noteq> [] \<Longrightarrow>
   save_try h f s p w = (Inr (),
     w\<lparr>logs := logs w @ [Debug (''Error checking if cache exist: '' @ template (message e))],
       caches := (cache_key_of s, filter (\<lambda>file. path_dirname h (fst file) \<in> set [path_dirname h p]) (files w))
          # caches w\<rparr>)"
  by (simp add: save_try_def cache_key_of_def Let_def checkIfCacheExists_list_fault bind_io_def
      return_io_def fs_statSync_size_def cache_saveCache_def)

lemma save_try_delete_status:
  "client_fault f = None \<Longrightarrow> list_fault f = None \<Longrightarrow> cache_key_of s \<in> fst ` set (caches w) \<Longrightarrow>
   delete_fault f = Some e \<Longrightarrow> truthy_status e \<Longrightarrow> stat_fault f = None \<Longrightarrow>
   upload_fault f = None \<Longrightarrow> map_of (files w) p = Some x \<Longrightarrow> x \<noteq> [] \<Longrightarrow>
   save_try h f s p w = (Inr (),
     w\<lparr>logs := logs w @
        [Debug (''remove cache '' @ dq @ cache_key_of s @ dq),
         Warning (''Error delete '' @ cache_key_of s @ '': ['' @ show_nat (the (status e)) @ ''] ''
           @ or_else (message e) ''Unknown reason'')],
       caches := (cache_key_of s, filter (\<lambda>file. path_dirname h (fst file) \<in> set [path_dirname h p]) (files w))
          # caches w\<rparr>)"
  by (simp add: save_try_def cache_key_of_def Let_def checkIfCacheExists_ok reset_status bind_io_def
      return_io_def fs_statSync_size_def cache_saveCache_def)

lemma save_try_delete_no_status:
  "client_fault f = None \<Longrightarrow> list_fault f = None \<Longrightarrow> cache_key_of s \<in> fst ` set (caches w) \<Longrightarrow>
   delete_fault f = Some e \<Longrightarrow> \<not> truthy_status e \<Longrightarrow>
   save_try h f s p w =
     (Inl e, w\<lparr>logs := logs w @ [Debug (''remove cache '' @ dq @ cache_key_of s @ dq)]\<rparr>)"
  by (simp add: save_try_def cache_key_of_def Let_def checkIfCacheExists_ok reset_no_status bind_io_def)

subsection \<open>restore_try\<close>

lemma restore_try_client_fault:
  "client_fault f = Some e \<Longrightarrow> restore_try h f s d n p w = (Inl e, w)"
  by (simp add: restore_try_def Let_def checkIfCacheExists_client_fault bind_io_def)

lemma restore_try_list_fault:
  "client_fault f = None \<Longrightarrow> list_fault f = Some e \<Longrightarrow>
   restore_try h f s d n p w = (Inr [],
     w\<lparr>logs := logs w @ [Debug (''Error checking if cache exist: '' @ template (message e)),
        Info ''The saved state was not found, the process starts from the first issue.'']\<rparr>)"
  by (simp add: restore_try_def Let_def checkIfCacheExists_list_fault bind_io_def return_io_def core_info_def)

lemma restore_try_absent:
  "client_fault f = None \<Longrightarrow> list_fault f = None \<Longrightarrow> cache_key_of s \<notin> fst ` set (caches w) \<Longrightarrow>
   restore_try h f s d n p w = (Inr [],
     w\<lparr>logs := logs w @ [Info ''The saved state was not found, the process starts from the first issue.'']\<rparr>)"
  by (simp add: restore_try_def cache_key_of_def Let_def checkIfCacheExists_ok bind_io_def return_io_def core_info_def)

lemma restore_try_download_fault:
  "client_fault f = None \<Longrightarrow> list_fault f = None \<Longrightarrow> cache_key_of s \<in> fst ` set (caches w) \<Longrightarrow>
   download_fault f = Some e \<Longrightarrow>
   restore_try h f s d n p w = (Inl e, w)"
  by (simp add: restore_try_def cache_key_of_def Let_def checkIfCacheExists_ok bind_io_def
      cache_restoreCache_def throw_io_def)

lemma cache_restoreCache_fst:
  "download_fault f = None \<Longrightarrow> \<exists>v. fst (cache_restoreCache h f ps k w) = Inr v"
  by (simp add: cache_restoreCache_def split: option.splits)

lemma restore_try_downloaded:
  assumes "client_fault f = None" "list_fault f = None" "cache_key_of s \<in> fst ` set (caches w)"
    "download_fault f = None"
  shows "restore_try h f s d n p w =
    (let w' = snd (cache_restoreCache h f [path_dirname h p] (cache_key_of s) w) in
     if \<not> fs_existsSync p w'
     then (Inr [], w'\<lparr>logs := logs w' @
        [Warning ''Unknown error when unpacking the cache, the process starts from the first issue.'']\<rparr>)
     else fs_readFileSync f (path_join h d n) w')"
proof -
  obtain v w' where c: "cache_restoreCache h f [path_dirname h p] (cache_key_of s) w = (Inr v, w')"
    using cache_restoreCache_fst [OF assms(4), of h "[path_dirname h p]" "cache_key_of s" w]
    by (cases "cache_restoreCache h f [path_dirname h p] (cache_key_of s) w") auto
  then have c': "cache_restoreCache h f [path_dirname h p] (statePrefix s @ CACHE_KEY) w = (Inr v, w')"
    by (simp add: cache_key_of_def)
  show ?thesis using assms(1-3)
    by (simp add: restore_try_def cache_key_of_def Let_def checkIfCacheExists_ok bind_io_def c c'
        return_io_def core_warning_def)
qed

subsection \<open>whole calls\<close>

lemma try_catch_Inr: "fst (m w) = Inr v \<Longrightarrow> try_catch m handler w = m w"
  by (cases "m w") (simp add: try_catch_def)

lemma try_catch_Inl: "m w = (Inl e, w') \<Longrightarrow> try_catch m handler w = handler e w'"
  by (simp add: try_catch_def)

lemma no_faults_simps [simp]:
  "mkdir_fault no_faults = None" "write_fault no_faults = None" "stat_fault no_faults = None"
  "unlink_fault no_faults = None" "read_fault no_faults = None" "client_fault no_faults = None"
  "list_fault no_faults = None" "delete_fault no_faults = None" "upload_fault no_faults = None"
  "download_fault no_faults = None"
  by (simp_all add: no_faults_def)

lemma map_of_rev_single:
  "k \<notin> fst ` set ys \<Longrightarrow> map_of (rev ((k, v) # ys)) k = Some v"
  by (simp add: map_add_def map_of_eq_None_iff [THEN iffD2] split: option.splits)

lemma archive_has:
  "P (p, x) \<Longrightarrow> map_of (rev (filter P (put_file p x fs))) p = Some x"
proof -
  assume P: "P (p, x)"
  have "p \<notin> fst ` set (filter P (AList.delete p fs))"
    by (auto simp: AList.delete_eq)
  then have "map_of (rev ((p, x) # filter P (AList.delete p fs))) p = Some x"
    by (rule map_of_rev_single)
  with P show ?thesis by (simp add: put_file_def)
qed

lemma save_ok_caches:
  assumes "mkdir_fault f = None" "write_fault f = None"
    "client_fault f = None" "list_fault f = None" "delete_fault f = None"
    "stat_fault f = None" "upload_fault f = None"
  shows "caches (snd (save h f s x w)) =
      (if x = [] then filter (\<lambda>c. fst c \<noteq> cache_key_of s) (caches w)
       else (cache_key_of s,
             filter (\<lambda>file. path_dirname h (fst file) \<in> set [path_dirname h (filePath_of h s)])
               (put_file (filePath_of h s) (utf8_encode x) (files w)))
          # filter (\<lambda>c. fst c \<noteq> cache_key_of s) (caches w))"
proof -
  let ?p = "filePath_of h s"
  let ?w1 = "w\<lparr>files := put_file ?p (utf8_encode x) (files w)\<rparr>"
  have m: "map_of (files ?w1) ?p = Some (utf8_encode x)" by (simp add: map_of_put_file)
  note t = save_try_ok_caches [OF assms(3-7) m, of h s]
  have "try_catch (save_try h f s ?p) save_catch ?w1 = save_try h f s ?p ?w1"
    using t(1) by (rule try_catch_Inr)
  then show ?thesis
    using t(2) by (simp add: save_unfold [OF assms(1,2)] unlinkSafely_caches utf8_encode_Nil)
qed

lemma restore_newest:
  assumes "mkdir_fault f = None" "client_fault f = None" "list_fault f = None"
    "download_fault f = None" "read_fault f = None"
    and c: "find (\<lambda>c. fst c = cache_key_of s) (caches w) = Some c"
    and x: "map_of (rev (snd c)) (filePath_of h s) = Some x"
  shows "fst (restore h f s w) = Inr (utf8_decode x)"
proof -
  let ?p = "filePath_of h s"
  let ?w1 = "snd (unlinkSafely f ?p w)"
  let ?w2 = "snd (cache_restoreCache h f [path_dirname h ?p] (cache_key_of s) ?w1)"
  have c1: "find (\<lambda>c. fst c = cache_key_of s) (caches ?w1) = Some c"
    using c by (simp add: unlinkSafely_caches)
  then have k: "cache_key_of s \<in> fst ` set (caches ?w1)"
    by (auto simp: find_Some_iff in_set_conv_nth image_iff intro!: bexI)
  have "files ?w2 = fold (\<lambda>file. put_file (fst file) (snd file)) (snd c) (files ?w1)"
    using c1 assms(4) by (simp add: cache_restoreCache_def)
  then have m: "map_of (files ?w2) ?p = Some x"
    using x by (simp add: map_of_unpack)
  then have e: "fs_existsSync ?p ?w2" by (simp add: fs_existsSync_def)
  have p: "path_join h (path_join h (tmpdir h) STALE_DIR) (statePrefix s @ CHR ''_'' # STATE_FILE) = ?p"
    by (simp add: filePath_of_def)
  have "restore_try h f s (path_join h (tmpdir h) STALE_DIR) (statePrefix s @ ''_'' @ STATE_FILE) ?p ?w1
     = (Inr (utf8_decode x), ?w2)"
    using e m assms(5)
    by (simp add: restore_try_downloaded [OF assms(2,3) k assms(4)] Let_def fs_readFileSync_def p)
  then show ?thesis
    by (simp add: restore_unfold [OF assms(1)] try_catch_def)
qed


lemma save_then_restore:
  assumes x: "x \<noteq> []"
  shows "fst (restore h no_faults s (snd (save h no_faults s x w))) = Inr (utf8_decode (utf8_encode x))"
proof -
  let ?p = "filePath_of h s"
  let ?a = "filter (\<lambda>file. path_dirname h (fst file) \<in> set [path_dirname h ?p])
     (put_file ?p (utf8_encode x) (files w))"
  let ?w = "snd (save h no_faults s x w)"
  have "caches ?w = (cache_key_of s, ?a) # filter (\<lambda>c. fst c \<noteq> cache_key_of s) (caches w)"
    using x by (simp add: save_ok_caches)
  then have c: "find (\<lambda>c. fst c = cache_key_of s) (caches ?w) = Some (cache_key_of s, ?a)"
    by simp
  have a: "map_of (rev (snd (cache_key_of s, ?a))) ?p = Some (utf8_encode x)"
    by (simp add: archive_has)
  show ?thesis
    by (rule restore_newest [OF _ _ _ _ _ c a]) simp_all
qed

subsection \<open>What restore leaves on disk\<close>




lemma find_key_None:
  "(find (\<lambda>c. fst c = k) cs = None) = (k \<notin> fst ` set cs)"
  by (force simp: find_None_iff)




subsection \<open>When restore returns the empty string\<close>

lemma restore_fails_empty:
  assumes mk: "mkdir_fault f = None"
    and fail: "client_fault f \<noteq> None \<or> list_fault f \<noteq> None \<or> download_fault f \<noteq> None \<or>
       read_fault f \<noteq> None \<or> cache_key_of s \<notin> fst ` set (caches w)"
  shows "fst (restore h f s w) = Inr []"
proof -
  note u = restore_unfold [OF mk, of h s w]
  let ?w1 = "snd (unlinkSafely f (filePath_of h s) w)"
  let ?d = "path_join h (tmpdir h) STALE_DIR"
  let ?n = "statePrefix s @ ''_'' @ STATE_FILE"
  let ?t = "restore_try h f s ?d ?n (filePath_of h s)"
  have thrown: "fst (try_catch ?t restore_catch ?w1) = Inr []" if "fst (?t ?w1) = Inl e" for e
    using that by (cases "?t ?w1")
      (simp add: try_catch_def restore_catch_def bind_io_def core_warning_def return_io_def)
  have returned: "fst (try_catch ?t restore_catch ?w1) = Inr []" if "fst (?t ?w1) = Inr []"
    using that by (simp add: try_catch_Inr)
  have "fst (?t ?w1) = Inr [] \<or> (\<exists>e. fst (?t ?w1) = Inl e)"
  proof (cases "client_fault f")
    case (Some e)
    then show ?thesis by (simp add: restore_try_client_fault)
  next
    case None
    note cl = this
    show ?thesis
    proof (cases "list_fault f")
      case (Some e)
      then show ?thesis using cl by (simp add: restore_try_list_fault)
    next
      case None
      note li = this
      show ?thesis
      proof (cases "cache_key_of s \<in> fst ` set (caches ?w1)")
        case False
        then show ?thesis using cl li by (simp add: restore_try_absent)
      next
        case True
        note k = this
        show ?thesis
        proof (cases "download_fault f")
          case (Some e)
          then show ?thesis using cl li k by (simp add: restore_try_download_fault)
        next
          case None
          with fail cl li k obtain e where r: "read_fault f = Some e"
            by (auto simp: unlinkSafely_caches)
          show ?thesis
            by (simp add: restore_try_downloaded [OF cl li k None] Let_def fs_readFileSync_def r
                throw_io_def)
        qed
      qed
    qed
  qed
  then show ?thesis
    using thrown returned by (auto simp: u)
qed

lemma key_not_in_filter: "k \<notin> fst ` set (filter (\<lambda>c. fst c \<noteq> k) cs)"
  by auto

lemma filter_eq_neq: "filter (\<lambda>c. fst c = k) (filter (\<lambda>c. fst c \<noteq> k) cs) = []"
  by (induction cs) auto

subsection \<open>Unfolding the concrete inputs\<close>

lemmas example_defs = posix_host_def foo_def constructor_def world_with_42_def empty_world_def
  cache_key_of_def filePath_of_def CACHE_KEY_def STATE_FILE_def STALE_DIR_def
  socket_hang_up_def server_error_def permission_denied_def truthy_status_def

section \<open>The claims\<close>





text \<open>
  C2, as amended. When no operation fails in either call (backend or scratch file),
  \<open>save x\<close> of a non-empty string followed by \<open>restore\<close> returns what decoding the UTF-8
  encoding of \<open>x\<close> gives, whatever the host, the prefix and the world before; for a
  well-formed \<open>x\<close> (every surrogate in a pair) that is exactly \<open>x\<close>.
\<close>

theorem save_restore_roundtrip:
  "x \<noteq> [] \<Longrightarrow>
   fst (restore h no_faults s (snd (save h no_faults s x w))) = Inr (utf8_decode (utf8_encode x)) \<and>
   (well_formed x \<longrightarrow> fst (restore h no_faults s (snd (save h no_faults s x w))) = Inr x)"
  by (simp add: save_then_restore utf8_decode_encode)

theorem save_restore_roundtrip_witness:
  "state_42 \<noteq> [] \<and> well_formed state_42 \<and>
   fst (restore posix_host no_faults foo (snd (save posix_host no_faults foo state_42 empty_world)))
     = Inr state_42 \<and>
   face_and_euro \<noteq> [] \<and> well_formed face_and_euro \<and>
   fst (restore posix_host no_faults foo (snd (save posix_host no_faults foo face_and_euro empty_world)))
     = Inr face_and_euro"
proof -
  note a = save_restore_roundtrip [OF state_42_bytes(3), of posix_host foo empty_world,
      THEN conjunct2, rule_format, OF state_42_bytes(4)]
  note b = save_restore_roundtrip [OF face_and_euro_bytes(2), of posix_host foo empty_world,
      THEN conjunct2, rule_format, OF face_and_euro_bytes(3)]
  show ?thesis
    using a b by (simp add: state_42_bytes(3,4) face_and_euro_bytes(2,3))
qed

text \<open>
  C2 as stated fails. A string that is one high surrogate is not empty and comes back as
  U+FFFD. And with every backend operation succeeding, a read of the scratch file that
  fails makes \<open>restore\<close> return the empty string.
\<close>

theorem save_restore_loses_lone_surrogate:
  "lone_surrogate \<noteq> [] \<and>
   fst (restore posix_host no_faults foo (snd (save posix_host no_faults foo lone_surrogate empty_world)))
     = Inr [0xFFFD] \<and>
   [0xFFFD] \<noteq> lone_surrogate \<and>
   state_42 \<noteq> [] \<and>
   fst (restore posix_host (no_faults\<lparr>read_fault := Some read_error\<rparr>) foo
          (snd (save posix_host no_faults foo state_42 empty_world))) = Inr []"
proof -
  have "fst (restore posix_host no_faults foo (snd (save posix_host no_faults foo lone_surrogate empty_world)))
     = Inr [0xFFFD]"
    by (simp add: save_then_restore lone_surrogate_bytes)
  moreover have "fst (restore posix_host (no_faults\<lparr>read_fault := Some read_error\<rparr>) foo
          (snd (save posix_host no_faults foo state_42 empty_world))) = Inr []"
    by (rule restore_fails_empty) simp_all
  ultimately show ?thesis
    by (simp add: lone_surrogate_bytes state_42_bytes)
qed

text \<open>
  C3, as amended. In \<open>save\<close>, with an entry under the key: a delete that fails with a
  truthy status is logged as a warning and \<open>save\<close> goes on to upload. A delete that fails
  without one is rethrown by \<open>resetCacheWithOctokit\<close>, which ends the \<open>try\<close> block (no
  upload); the \<open>catch\<close> block of \<open>save\<close> logs it as a warning and \<open>save\<close> returns
  normally.
\<close>

theorem delete_failure_in_save:
  assumes "mkdir_fault f = None" "write_fault f = None" "client_fault f = None"
    "list_fault f = None" "cache_key_of s \<in> fst ` set (caches w)" "delete_fault f = Some e"
  shows "(truthy_status e \<and> stat_fault f = None \<and> upload_fault f = None \<and> x \<noteq> [] \<longrightarrow>
      fst (save h f s x w) = Inr () \<and>
      logs (snd (save h f s x w)) = logs w @
        [Debug (''remove cache '' @ dq @ cache_key_of s @ dq),
         Warning (''Error delete '' @ cache_key_of s @ '': ['' @ show_nat (the (status e)) @ ''] ''
           @ or_else (message e) ''Unknown reason'')] \<and>
      caches (snd (save h f s x w)) =
        (cache_key_of s,
         filter (\<lambda>file. path_dirname h (fst file) \<in> set [path_dirname h (filePath_of h s)])
           (put_file (filePath_of h s) (utf8_encode x) (files w))) # caches w) \<and>
    (\<not> truthy_status e \<longrightarrow>
      fst (resetCacheWithOctokit f (cache_key_of s) w) = Inl e \<and>
      fst (save h f s x w) = Inr () \<and>
      logs (snd (save h f s x w)) = logs w @
        [Debug (''remove cache '' @ dq @ cache_key_of s @ dq),
         Warning (''Saving the state was not successful due to '' @ dq
           @ or_else (message e) ''unknown reason'' @ dq)] \<and>
      caches (snd (save h f s x w)) = caches w)"
proof (intro conjI impI)
  let ?p = "filePath_of h s"
  let ?w1 = "w\<lparr>files := put_file ?p (utf8_encode x) (files w)\<rparr>"
  have k: "cache_key_of s \<in> fst ` set (caches ?w1)" using assms(5) by simp
  have m: "map_of (files ?w1) ?p = Some (utf8_encode x)" by (simp add: map_of_put_file)
  note u = save_unfold [OF assms(1,2), of h s x w]
  show "fst (save h f s x w) = Inr ()" "fst (save h f s x w) = Inr ()"
    by (simp_all add: u)
  {
    assume a: "truthy_status e \<and> stat_fault f = None \<and> upload_fault f = None \<and> x \<noteq> []"
    then have ne: "utf8_encode x \<noteq> []" by (simp add: utf8_encode_Nil)
    with a have t: "save_try h f s ?p ?w1 = (Inr (),
       ?w1\<lparr>logs := logs ?w1 @
        [Debug (''remove cache '' @ dq @ cache_key_of s @ dq),
         Warning (''Error delete '' @ cache_key_of s @ '': ['' @ show_nat (the (status e)) @ ''] ''
           @ or_else (message e) ''Unknown reason'')],
       caches := (cache_key_of s, filter (\<lambda>file. path_dirname h (fst file) \<in> set [path_dirname h ?p]) (files ?w1))
          # caches ?w1\<rparr>)"
      using save_try_delete_status [OF assms(3,4) k assms(6) _ _ _ m, of h] by blast
    have c: "try_catch (save_try h f s ?p) save_catch ?w1 = save_try h f s ?p ?w1"
      by (rule try_catch_Inr [of _ _ "()"]) (simp add: t)
    show "logs (snd (save h f s x w)) = logs w @
        [Debug (''remove cache '' @ dq @ cache_key_of s @ dq),
         Warning (''Error delete '' @ cache_key_of s @ '': ['' @ show_nat (the (status e)) @ ''] ''
           @ or_else (message e) ''Unknown reason'')]"
      by (simp add: u c t unlinkSafely_logs)
    show "caches (snd (save h f s x w)) =
        (cache_key_of s,
         filter (\<lambda>file. path_dirname h (fst file) \<in> set [path_dirname h (filePath_of h s)])
           (put_file (filePath_of h s) (utf8_encode x) (files w))) # caches w"
      by (simp add: u c t unlinkSafely_caches)
  }
  {
    assume a: "\<not> truthy_status e"
    show "fst (resetCacheWithOctokit f (cache_key_of s) w) = Inl e"
      by (simp add: reset_no_status [OF assms(3,6) a])
    have t: "save_try h f s ?p ?w1 =
       (Inl e, ?w1\<lparr>logs := logs ?w1 @ [Debug (''remove cache '' @ dq @ cache_key_of s @ dq)]\<rparr>)"
      by (rule save_try_delete_no_status [OF assms(3,4) k assms(6) a])
    have c: "try_catch (save_try h f s ?p) save_catch ?w1 =
       save_catch e (?w1\<lparr>logs := logs ?w1 @ [Debug (''remove cache '' @ dq @ cache_key_of s @ dq)]\<rparr>)"
      using t by (rule try_catch_Inl)
    show "logs (snd (save h f s x w)) = logs w @
        [Debug (''remove cache '' @ dq @ cache_key_of s @ dq),
         Warning (''Saving the state was not successful due to '' @ dq
           @ or_else (message e) ''unknown reason'' @ dq)]"
      by (simp add: u c unlinkSafely_logs save_catch_def core_warning_def)
    show "caches (snd (save h f s x w)) = caches w"
      by (simp add: u c unlinkSafely_caches save_catch_def core_warning_def)
  }
qed

theorem delete_failure_in_save_witness:
  "cache_key_of foo \<in> fst ` set (caches world_with_42) \<and>
   truthy_status server_error \<and> \<not> truthy_status socket_hang_up \<and>
   fst (save posix_host (no_faults\<lparr>delete_fault := Some server_error\<rparr>) foo state_43 world_with_42) = Inr () \<and>
   logs (snd (save posix_host (no_faults\<lparr>delete_fault := Some server_error\<rparr>) foo state_43 world_with_42)) =
     [Debug (''remove cache '' @ dq @ ''foo_state'' @ dq),
      Warning ''Error delete foo_state: [500] Internal Server Error''] \<and>
   caches (snd (save posix_host (no_faults\<lparr>delete_fault := Some server_error\<rparr>) foo state_43 world_with_42)) =
     [(''foo_state'', [(''/tmp/56acbeaa-1fef-4c79-8f84-7565e560fb03/foo_state.txt'', ''43'')]),
      (''foo_state'', [(''/tmp/56acbeaa-1fef-4c79-8f84-7565e560fb03/foo_state.txt'', ''42'')])] \<and>
   fst (resetCacheWithOctokit (no_faults\<lparr>delete_fault := Some socket_hang_up\<rparr>) ''foo_state'' world_with_42)
     = Inl socket_hang_up \<and>
   fst (save posix_host (no_faults\<lparr>delete_fault := Some socket_hang_up\<rparr>) foo state_43 world_with_42) = Inr () \<and>
   logs (snd (save posix_host (no_faults\<lparr>delete_fault := Some socket_hang_up\<rparr>) foo state_43 world_with_42)) =
     [Debug (''remove cache '' @ dq @ ''foo_state'' @ dq),
      Warning (''Saving the state was not successful due to '' @ dq @ ''socket hang up'' @ dq)] \<and>
   caches (snd (save posix_host (no_faults\<lparr>delete_fault := Some socket_hang_up\<rparr>) foo state_43 world_with_42)) =
     caches world_with_42"
  using delete_failure_in_save [where f = "no_faults\<lparr>delete_fault := Some server_error\<rparr>"
      and s = foo and w = world_with_42 and e = server_error and h = posix_host and x = state_43]
    delete_failure_in_save [where f = "no_faults\<lparr>delete_fault := Some socket_hang_up\<rparr>"
      and s = foo and w = world_with_42 and e = socket_hang_up and h = posix_host and x = state_43]
  by (simp add: example_defs show_nat.simps or_else_def put_file_def state_42_bytes state_43_bytes)

text \<open>
  C3 as stated fails: with a delete error that has no status, \<open>save\<close> returns normally
  instead of throwing the error to its caller.
\<close>

theorem delete_failure_not_thrown_by_save:
  "delete_fault (no_faults\<lparr>delete_fault := Some socket_hang_up\<rparr>) = Some socket_hang_up \<and>
   status socket_hang_up = None \<and>
   fst (save posix_host (no_faults\<lparr>delete_fault := Some socket_hang_up\<rparr>) foo state_43 world_with_42)
     = Inr ()"
  by code_simp

text \<open>
  C4, as amended. Once the scratch directory is made, \<open>restore\<close> returns normally in
  every execution, and it returns the empty string when the client, the listing, the
  download or the read fails, or when there is no entry under the key. The directory is
  made before the \<open>try\<close> block: when that fails, \<open>restore\<close> throws the error.
\<close>

theorem restore_outcome:
  "(mkdir_fault f = None \<longrightarrow>
      (\<exists>v. fst (restore h f s w) = Inr v) \<and>
      (client_fault f \<noteq> None \<or> list_fault f \<noteq> None \<or> download_fault f \<noteq> None \<or>
       read_fault f \<noteq> None \<or> cache_key_of s \<notin> fst ` set (caches w) \<longrightarrow>
         fst (restore h f s w) = Inr [])) \<and>
   (\<forall>e. mkdir_fault f = Some e \<longrightarrow> restore h f s w = (Inl e, w))"
proof (intro conjI impI allI)
  fix e assume "mkdir_fault f = Some e"
  then show "restore h f s w = (Inl e, w)" by (rule restore_mkdir_fault)
next
  assume mk: "mkdir_fault f = None"
  show "\<exists>v. fst (restore h f s w) = Inr v"
    by (simp add: restore_unfold [OF mk] try_catch_restore_catch_fst)
  assume "client_fault f \<noteq> None \<or> list_fault f \<noteq> None \<or> download_fault f \<noteq> None \<or>
       read_fault f \<noteq> None \<or> cache_key_of s \<notin> fst ` set (caches w)"
  with mk show "fst (restore h f s w) = Inr []" by (rule restore_fails_empty)
qed

theorem restore_outcome_witness:
  "mkdir_fault (no_faults\<lparr>download_fault := Some socket_hang_up\<rparr>) = None \<and>
   download_fault (no_faults\<lparr>download_fault := Some socket_hang_up\<rparr>) \<noteq> None \<and>
   fst (restore posix_host (no_faults\<lparr>download_fault := Some socket_hang_up\<rparr>) foo world_with_42) = Inr [] \<and>
   cache_key_of foo \<notin> fst ` set (caches empty_world) \<and>
   fst (restore posix_host no_faults foo empty_world) = Inr [] \<and>
   mkdir_fault (no_faults\<lparr>mkdir_fault := Some permission_denied\<rparr>) = Some permission_denied \<and>
   restore posix_host (no_faults\<lparr>mkdir_fault := Some permission_denied\<rparr>) foo world_with_42 =
     (Inl permission_denied, world_with_42)"
  using restore_outcome [where f = "no_faults\<lparr>download_fault := Some socket_hang_up\<rparr>"
      and h = posix_host and s = foo and w = world_with_42]
    restore_outcome [where f = no_faults and h = posix_host and s = foo and w = empty_world]
    restore_outcome [where f = "no_faults\<lparr>mkdir_fault := Some permission_denied\<rparr>"
      and h = posix_host and s = foo and w = world_with_42]
  by (simp add: example_defs)


text \<open>
  C4 as stated fails: when the scratch directory cannot be made, \<open>restore\<close> throws.
\<close>

theorem restore_throws_on_mkdir_failure:
  "fst (restore posix_host (no_faults\<lparr>mkdir_fault := Some permission_denied\<rparr>) foo empty_world)
     = Inl permission_denied"
  by code_simp

text \<open>
  C5. When the client is made and the listing does not fail, the listing that
  \<open>checkIfCacheExists\<close> receives is the one filtered by prefix, and the check answers
  whether that listing has an entry whose key equals the cache key; that is the case
  exactly when the backend stores an entry under exactly the key. Entries whose keys
  only start with the key do not count.
\<close>

theorem checkIfCacheExists_exact_match:
  assumes "client_fault f = None" "list_fault f = None"
  shows "getActionsCacheList f Octokit k w =
      (Inr (Some (map (\<lambda>c. Some (fst c)) (filter (\<lambda>c. prefix k (fst c)) (caches w)))), w) \<and>
    checkIfCacheExists f k w =
      (Inr (Some k \<in> set (map (\<lambda>c. Some (fst c)) (filter (\<lambda>c. prefix k (fst c)) (caches w)))), w) \<and>
    (Some k \<in> set (map (\<lambda>c. Some (fst c)) (filter (\<lambda>c. prefix k (fst c)) (caches w))))
      = (k \<in> fst ` set (caches w))"
proof (intro conjI)
  have 3: "(Some k \<in> set (map (\<lambda>c. Some (fst c)) (filter (\<lambda>c. prefix k (fst c)) (caches w))))
      = (k \<in> fst ` set (caches w))"
    by (simp add: list_ex_listing [symmetric] list_ex_iff)
  show "getActionsCacheList f Octokit k w =
      (Inr (Some (map (\<lambda>c. Some (fst c)) (filter (\<lambda>c. prefix k (fst c)) (caches w)))), w)"
    using assms(2) by (simp add: getActionsCacheList_def)
  show "checkIfCacheExists f k w =
      (Inr (Some k \<in> set (map (\<lambda>c. Some (fst c)) (filter (\<lambda>c. prefix k (fst c)) (caches w)))), w)"
    by (simp only: 3 checkIfCacheExists_ok [OF assms])
  show "(Some k \<in> set (map (\<lambda>c. Some (fst c)) (filter (\<lambda>c. prefix k (fst c)) (caches w))))
      = (k \<in> fst ` set (caches w))"
    by (rule 3)
qed

theorem checkIfCacheExists_exact_match_witness:
  "client_fault no_faults = None \<and> list_fault no_faults = None \<and>
   getActionsCacheList no_faults Octokit ''foo_state'' world_with_longer_keys =
     (Inr (Some [Some ''foo_state_old'', Some ''foo_state2'']), world_with_longer_keys) \<and>
   checkIfCacheExists no_faults ''foo_state'' world_with_longer_keys = (Inr False, world_with_longer_keys) \<and>
   checkIfCacheExists no_faults ''foo_state'' world_with_42 = (Inr True, world_with_42)"
  using checkIfCacheExists_exact_match [where f = no_faults and k = "''foo_state''" and w = world_with_longer_keys]
    checkIfCacheExists_exact_match [where f = no_faults and k = "''foo_state''" and w = world_with_42]
  by (simp add: world_with_longer_keys_def world_with_42_def)

text \<open>
  C6, as amended. \<open>save\<close> of the empty string, when no operation of \<open>save\<close> fails,
  uploads nothing: the entries under the cache key are deleted, none is added, and a later
  \<open>restore\<close> (whatever fails in it after the directory is made) returns the empty string.
\<close>

theorem save_empty_clears:
  "fst (save h no_faults s [] w) = Inr () \<and>
   caches (snd (save h no_faults s [] w)) = filter (\<lambda>c. fst c \<noteq> cache_key_of s) (caches w) \<and>
   cache_key_of s \<notin> fst ` set (caches (snd (save h no_faults s [] w))) \<and>
   (mkdir_fault f = None \<longrightarrow> fst (restore h f s (snd (save h no_faults s [] w))) = Inr [])"
proof -
  have c: "caches (snd (save h no_faults s [] w)) = filter (\<lambda>c. fst c \<noteq> cache_key_of s) (caches w)"
    by (simp add: save_ok_caches)
  then have k: "cache_key_of s \<notin> fst ` set (caches (snd (save h no_faults s [] w)))"
    by (simp only: key_not_in_filter not_False_eq_True)
  have "fst (save h no_faults s [] w) = Inr ()" by (simp add: save_unfold)
  with c k show ?thesis by (simp add: restore_fails_empty)
qed

theorem save_empty_clears_witness:
  "fst (save posix_host no_faults foo [] world_with_42) = Inr () \<and>
   caches (snd (save posix_host no_faults foo [] world_with_42)) = [] \<and>
   mkdir_fault no_faults = None \<and>
   fst (restore posix_host no_faults foo (snd (save posix_host no_faults foo [] world_with_42))) = Inr []"
  using save_empty_clears [where h = posix_host and s = foo and w = world_with_42 and f = no_faults]
  by (simp add: example_defs)

text \<open>
  C6 as stated fails: when the listing fails, or the delete fails with a status, \<open>save\<close>
  of the empty string returns normally and leaves the entry, and the next \<open>restore\<close>
  returns the old state.
\<close>

theorem save_empty_keeps_entry_on_failure:
  "fst (save posix_host (no_faults\<lparr>list_fault := Some socket_hang_up\<rparr>) foo [] world_with_42) = Inr () \<and>
   caches (snd (save posix_host (no_faults\<lparr>list_fault := Some socket_hang_up\<rparr>) foo [] world_with_42))
     = caches world_with_42 \<and>
   fst (restore posix_host no_faults foo
          (snd (save posix_host (no_faults\<lparr>list_fault := Some socket_hang_up\<rparr>) foo [] world_with_42)))
     = Inr state_42 \<and>
   fst (save posix_host (no_faults\<lparr>delete_fault := Some server_error\<rparr>) foo [] world_with_42) = Inr () \<and>
   fst (restore posix_host no_faults foo
          (snd (save posix_host (no_faults\<lparr>delete_fault := Some server_error\<rparr>) foo [] world_with_42)))
     = Inr state_42"
  by code_simp

text \<open>
  C7. After one or more calls of \<open>save\<close> with the same prefix in which no operation
  fails, the backend holds at most one entry under the cache key: none when the last
  state saved was empty, one otherwise. In particular saving the same state twice leaves
  one entry.
\<close>

theorem at_most_one_entry:
  assumes "xs \<noteq> []"
  shows "length (filter (\<lambda>c. fst c = cache_key_of s)
           (caches (fold (\<lambda>x w. snd (save h no_faults s x w)) xs w)))
         = (if last xs = [] then 0 else 1)"
proof -
  obtain ys x where xs: "xs = ys @ [x]"
    using assms by (cases xs rule: rev_cases) auto
  show ?thesis
    by (simp add: xs save_ok_caches filter_eq_neq)
qed

theorem at_most_one_entry_witness:
  "[state_42, state_42] \<noteq> [] \<and>
   length (filter (\<lambda>c. fst c = cache_key_of foo)
     (caches (fold (\<lambda>x w. snd (save posix_host no_faults foo x w)) [state_42, state_42] empty_world))) = 1 \<and>
   caches (fold (\<lambda>x w. snd (save posix_host no_faults foo x w)) [state_42, state_42] empty_world) =
     [(''foo_state'', [(''/tmp/56acbeaa-1fef-4c79-8f84-7565e560fb03/foo_state.txt'', ''42'')])]"
proof -
  have "caches (fold (\<lambda>x w. snd (save posix_host no_faults foo x w)) [state_42, state_42] empty_world) =
     [(''foo_state'', [(''/tmp/56acbeaa-1fef-4c79-8f84-7565e560fb03/foo_state.txt'', ''42'')])]"
    by code_simp
  then show ?thesis
    using at_most_one_entry [where xs = "[state_42, state_42]" and s = foo and h = posix_host and w = empty_world]
    by (simp add: state_42_bytes)
qed

text \<open>
  C8. When \<open>restore\<close> finds the entry, the download returns without error and the
  scratch file is not on disk afterwards, \<open>restore\<close> returns the empty string and logs
  the warning about unpacking; it does not throw.
\<close>

theorem restore_missing_scratch_file:
  assumes "mkdir_fault f = None" "client_fault f = None" "list_fault f = None"
    "download_fault f = None" "cache_key_of s \<in> fst ` set (caches w)"
    and missing: "\<not> fs_existsSync (filePath_of h s)
      (snd (cache_restoreCache h f [path_dirname h (filePath_of h s)] (cache_key_of s)
         (snd (unlinkSafely f (filePath_of h s) w))))"
  shows "fst (cache_restoreCache h f [path_dirname h (filePath_of h s)] (cache_key_of s)
         (snd (unlinkSafely f (filePath_of h s) w))) = Inr (Some (cache_key_of s)) \<and>
    fst (restore h f s w) = Inr [] \<and>
    logs (snd (restore h f s w)) = logs w @
      [Warning ''Unknown error when unpacking the cache, the process starts from the first issue.'']"
proof -
  let ?p = "filePath_of h s"
  let ?w1 = "snd (unlinkSafely f ?p w)"
  let ?w2 = "snd (cache_restoreCache h f [path_dirname h ?p] (cache_key_of s) ?w1)"
  have k: "cache_key_of s \<in> fst ` set (caches ?w1)"
    using assms(5) by (simp add: unlinkSafely_caches)
  then obtain c where c: "find (\<lambda>c. fst c = cache_key_of s) (caches ?w1) = Some c"
    using find_key_None [of "cache_key_of s" "caches ?w1"] by auto
  have d: "fst (cache_restoreCache h f [path_dirname h ?p] (cache_key_of s) ?w1) = Inr (Some (cache_key_of s))"
    using assms(4) c by (simp add: cache_restoreCache_def)
  have l: "logs ?w2 = logs w"
    using assms(4) c by (simp add: cache_restoreCache_def unlinkSafely_logs)
  have t: "restore_try h f s (path_join h (tmpdir h) STALE_DIR) (statePrefix s @ ''_'' @ STATE_FILE) ?p ?w1
     = (Inr [], ?w2\<lparr>logs := logs ?w2 @
        [Warning ''Unknown error when unpacking the cache, the process starts from the first issue.'']\<rparr>)"
    using missing by (simp add: restore_try_downloaded [OF assms(2,3) k assms(4)] Let_def)
  have "restore h f s w = (Inr [], ?w2\<lparr>logs := logs ?w2 @
        [Warning ''Unknown error when unpacking the cache, the process starts from the first issue.'']\<rparr>)"
    using restore_unfold [OF assms(1), of h s w] t by (simp add: try_catch_def)
  with d l show ?thesis by simp
qed

theorem restore_missing_scratch_file_witness:
  "mkdir_fault no_faults = None \<and> client_fault no_faults = None \<and> list_fault no_faults = None \<and>
   download_fault no_faults = None \<and> cache_key_of foo \<in> fst ` set (caches world_with_empty_entry) \<and>
   \<not> fs_existsSync (filePath_of posix_host foo)
      (snd (cache_restoreCache posix_host no_faults [path_dirname posix_host (filePath_of posix_host foo)]
         (cache_key_of foo) (snd (unlinkSafely no_faults (filePath_of posix_host foo) world_with_empty_entry)))) \<and>
   fst (restore posix_host no_faults foo world_with_empty_entry) = Inr [] \<and>
   logs (snd (restore posix_host no_faults foo world_with_empty_entry)) =
      [Warning ''Unknown error when unpacking the cache, the process starts from the first issue.'']"
proof -
  have k: "cache_key_of foo \<in> fst ` set (caches world_with_empty_entry)"
    by (simp add: example_defs world_with_empty_entry_def)
  have m: "\<not> fs_existsSync (filePath_of posix_host foo)
      (snd (cache_restoreCache posix_host no_faults [path_dirname posix_host (filePath_of posix_host foo)]
         (cache_key_of foo) (snd (unlinkSafely no_faults (filePath_of posix_host foo) world_with_empty_entry))))"
    by code_simp
  show ?thesis
    using k m restore_missing_scratch_file [where f = no_faults and s = foo and h = posix_host
        and w = world_with_empty_entry, OF _ _ _ _ k m]
    by (simp add: world_with_empty_entry_def)
qed

text \<open>
  C9. For every prefix \<open>p\<close> the cache key is \<open>p\<close> followed by \<open>_state\<close> and the scratch
  file is named \<open>p\<close> followed by \<open>_state.txt\<close>, in the scratch directory; a \<open>save\<close> of a
  non-empty state in which nothing fails stores, under that key, an archive holding that
  file with the (encoded) state as content, and the following \<open>restore\<close> returns the
  decoded content, which is the state when it is well formed. The witness is the example
  of the prefix \<open>foo\<close> and the state \<open>42\<close>.
\<close>

theorem key_and_file_names:
  "cache_key_of \<lparr>statePrefix = p\<rparr> = p @ ''_state'' \<and>
   filePath_of h \<lparr>statePrefix = p\<rparr> =
     path_join h (path_join h (tmpdir h) ''56acbeaa-1fef-4c79-8f84-7565e560fb03'') (p @ ''_state.txt'') \<and>
   (x \<noteq> [] \<longrightarrow>
     hd (caches (snd (save h no_faults \<lparr>statePrefix = p\<rparr> x w))) =
       (p @ ''_state'',
        filter (\<lambda>file. path_dirname h (fst file) \<in> set [path_dirname h (filePath_of h \<lparr>statePrefix = p\<rparr>)])
          (put_file (filePath_of h \<lparr>statePrefix = p\<rparr>) (utf8_encode x) (files w))) \<and>
     map_of (snd (hd (caches (snd (save h no_faults \<lparr>statePrefix = p\<rparr> x w)))))
       (path_join h (path_join h (tmpdir h) ''56acbeaa-1fef-4c79-8f84-7565e560fb03'') (p @ ''_state.txt''))
       = Some (utf8_encode x) \<and>
     fst (restore h no_faults \<lparr>statePrefix = p\<rparr> (snd (save h no_faults \<lparr>statePrefix = p\<rparr> x w)))
       = Inr (utf8_decode (utf8_encode x)) \<and>
     (well_formed x \<longrightarrow>
       fst (restore h no_faults \<lparr>statePrefix = p\<rparr> (snd (save h no_faults \<lparr>statePrefix = p\<rparr> x w)))
         = Inr x))"
proof (intro conjI impI)
  let ?s = "\<lparr>statePrefix = p\<rparr>"
  let ?p = "filePath_of h ?s"
  let ?a = "filter (\<lambda>file. path_dirname h (fst file) \<in> set [path_dirname h ?p])
     (put_file ?p (utf8_encode x) (files w))"
  show k: "cache_key_of ?s = p @ ''_state''"
    by (simp add: cache_key_of_def CACHE_KEY_def)
  show n: "?p = path_join h (path_join h (tmpdir h) ''56acbeaa-1fef-4c79-8f84-7565e560fb03'') (p @ ''_state.txt'')"
    by (simp add: filePath_of_def STALE_DIR_def STATE_FILE_def)
  assume x: "x \<noteq> []"
  have c: "caches (snd (save h no_faults ?s x w)) =
      (cache_key_of ?s, ?a) # filter (\<lambda>c. fst c \<noteq> cache_key_of ?s) (caches w)"
    using x by (simp add: save_ok_caches)
  then show h: "hd (caches (snd (save h no_faults ?s x w))) = (p @ ''_state'', ?a)"
    by (simp add: k)
  have "map_of ?a ?p = Some (utf8_encode x)"
    by (simp add: put_file_def)
  then show "map_of (snd (hd (caches (snd (save h no_faults ?s x w)))))
       (path_join h (path_join h (tmpdir h) ''56acbeaa-1fef-4c79-8f84-7565e560fb03'') (p @ ''_state.txt''))
       = Some (utf8_encode x)"
    by (simp only: h n [symmetric] snd_conv)
  have f: "find (\<lambda>c. fst c = cache_key_of ?s) (caches (snd (save h no_faults ?s x w))) = Some (cache_key_of ?s, ?a)"
    by (simp add: c)
  have a: "map_of (rev (snd (cache_key_of ?s, ?a))) ?p = Some (utf8_encode x)"
    by (simp add: archive_has)
  show r: "fst (restore h no_faults ?s (snd (save h no_faults ?s x w))) = Inr (utf8_decode (utf8_encode x))"
    by (rule restore_newest [OF _ _ _ _ _ f a]) simp_all
  assume "well_formed x"
  with r show "fst (restore h no_faults ?s (snd (save h no_faults ?s x w))) = Inr x"
    by (simp add: utf8_decode_encode)
qed

theorem key_and_file_names_witness:
  "state_42 \<noteq> [] \<and> well_formed state_42 \<and>
   cache_key_of foo = ''foo_state'' \<and>
   filePath_of posix_host foo = ''/tmp/56acbeaa-1fef-4c79-8f84-7565e560fb03/foo_state.txt'' \<and>
   hd (caches (snd (save posix_host no_faults foo state_42 empty_world))) =
     (''foo_state'', [(''/tmp/56acbeaa-1fef-4c79-8f84-7565e560fb03/foo_state.txt'', ''42'')]) \<and>
   fst (restore posix_host no_faults foo (snd (save posix_host no_faults foo state_42 empty_world))) = Inr state_42"
proof -
  have wf: "well_formed state_42" by (rule state_42_bytes)
  show ?thesis
    using wf key_and_file_names [where p = "''foo''" and h = posix_host and x = state_42 and w = empty_world]
    by (simp add: example_defs put_file_def state_42_bytes)
qed

text \<open>
  C10. When the listing throws, \<open>checkIfCacheExists\<close> logs a debug line and returns
  false. So \<open>save\<close> deletes nothing and uploads: the new entry is added in front of all
  the old ones. And \<open>restore\<close> returns the empty string; the error of the listing is not
  thrown.
\<close>

theorem listing_failure_is_absence:
  assumes "client_fault f = None" "list_fault f = Some e"
  shows "checkIfCacheExists f k w =
      (Inr False, w\<lparr>logs := logs w @ [Debug (''Error checking if cache exist: '' @ template (message e))]\<rparr>) \<and>
    (mkdir_fault f = None \<and> write_fault f = None \<and> stat_fault f = None \<and> upload_fault f = None \<and> x \<noteq> [] \<longrightarrow>
      fst (save h f s x w) = Inr () \<and>
      caches (snd (save h f s x w)) =
        (cache_key_of s,
         filter (\<lambda>file. path_dirname h (fst file) \<in> set [path_dirname h (filePath_of h s)])
           (put_file (filePath_of h s) (utf8_encode x) (files w))) # caches w \<and>
      logs (snd (save h f s x w)) =
        logs w @ [Debug (''Error checking if cache exist: '' @ template (message e))]) \<and>
    (mkdir_fault f = None \<longrightarrow> fst (restore h f s w) = Inr [])"
proof (intro conjI impI)
  show "checkIfCacheExists f k w =
      (Inr False, w\<lparr>logs := logs w @ [Debug (''Error checking if cache exist: '' @ template (message e))]\<rparr>)"
    using assms by (rule checkIfCacheExists_list_fault)
next
  assume "mkdir_fault f = None"
  then show "fst (restore h f s w) = Inr []"
    using assms(2) by (simp add: restore_fails_empty)
next
  let ?p = "filePath_of h s"
  let ?w1 = "w\<lparr>files := put_file ?p (utf8_encode x) (files w)\<rparr>"
  assume a: "mkdir_fault f = None \<and> write_fault f = None \<and> stat_fault f = None \<and> upload_fault f = None \<and> x \<noteq> []"
  then have u: "save h f s x w =
     (Inr (), snd (unlinkSafely f ?p (snd (try_catch (save_try h f s ?p) save_catch ?w1))))"
    by (simp add: save_unfold)
  have m: "map_of (files ?w1) ?p = Some (utf8_encode x)" by (simp add: map_of_put_file)
  from a have ne: "utf8_encode x \<noteq> []" by (simp add: utf8_encode_Nil)
  have t: "save_try h f s ?p ?w1 = (Inr (),
     ?w1\<lparr>logs := logs ?w1 @ [Debug (''Error checking if cache exist: '' @ template (message e))],
       caches := (cache_key_of s, filter (\<lambda>file. path_dirname h (fst file) \<in> set [path_dirname h ?p]) (files ?w1))
          # caches ?w1\<rparr>)"
    using a ne save_try_list_fault [OF assms _ _ m, of h s] by blast
  have c: "try_catch (save_try h f s ?p) save_catch ?w1 = save_try h f s ?p ?w1"
    by (rule try_catch_Inr [of _ _ "()"]) (simp add: t)
  show "fst (save h f s x w) = Inr ()" by (simp add: u)
  show "caches (snd (save h f s x w)) =
        (cache_key_of s,
         filter (\<lambda>file. path_dirname h (fst file) \<in> set [path_dirname h (filePath_of h s)])
           (put_file (filePath_of h s) (utf8_encode x) (files w))) # caches w"
    by (simp add: u c t unlinkSafely_caches)
  show "logs (snd (save h f s x w)) =
        logs w @ [Debug (''Error checking if cache exist: '' @ template (message e))]"
    by (simp add: u c t unlinkSafely_logs)
qed

theorem listing_failure_is_absence_witness:
  "client_fault (no_faults\<lparr>list_fault := Some socket_hang_up\<rparr>) = None \<and>
   list_fault (no_faults\<lparr>list_fault := Some socket_hang_up\<rparr>) = Some socket_hang_up \<and>
   fst (checkIfCacheExists (no_faults\<lparr>list_fault := Some socket_hang_up\<rparr>) ''foo_state'' world_with_42) = Inr False \<and>
   state_43 \<noteq> [] \<and>
   fst (save posix_host (no_faults\<lparr>list_fault := Some socket_hang_up\<rparr>) foo state_43 world_with_42) = Inr () \<and>
   caches (snd (save posix_host (no_faults\<lparr>list_fault := Some socket_hang_up\<rparr>) foo state_43 world_with_42)) =
     [(''foo_state'', [(''/tmp/56acbeaa-1fef-4c79-8f84-7565e560fb03/foo_state.txt'', ''43'')]),
      (''foo_state'', [(''/tmp/56acbeaa-1fef-4c79-8f84-7565e560fb03/foo_state.txt'', ''42'')])] \<and>
   logs (snd (save posix_host (no_faults\<lparr>list_fault := Some socket_hang_up\<rparr>) foo state_43 world_with_42)) =
     [Debug ''Error checking if cache exist: socket hang up''] \<and>
   fst (restore posix_host (no_faults\<lparr>list_fault := Some socket_hang_up\<rparr>) foo world_with_42) = Inr []"
  using listing_failure_is_absence [where f = "no_faults\<lparr>list_fault := Some socket_hang_up\<rparr>"
      and e = socket_hang_up and k = "''foo_state''" and w = world_with_42 and h = posix_host
      and s = foo and x = state_43]
  by (simp add: example_defs put_file_def template_def state_42_bytes state_43_bytes)

end
